theory Spec2Isabelle
  imports Main "HOL-Library.Word"
begin

section \<open>JavaScript strings\<close>

text \<open>
  A JavaScript string is a sequence of UTF-16 code units; \<open>length\<close> counts code units.
  \<open>str\<close> writes a literal of the source (all of them are ASCII).
\<close>

type_synonym jschar = "16 word"
type_synonym jsstring = "jschar list"

definition str :: "string \<Rightarrow> jsstring" where
  "str s = map (\<lambda>c. of_nat (of_char c)) s"

text \<open>
  The code units that \<open>String.prototype.trim\<close> strips and that \<open>\s\<close> matches:
  WhiteSpace and LineTerminator of ECMAScript.
\<close>

definition isWhiteSpace :: "jschar \<Rightarrow> bool" where
  "isWhiteSpace c =
     (c = 0x09 \<or> c = 0x0A \<or> c = 0x0B \<or> c = 0x0C \<or> c = 0x0D \<or> c = 0x20 \<or> c = 0xA0
      \<or> c = 0x1680 \<or> (0x2000 \<le> c \<and> c \<le> 0x200A) \<or> c = 0x2028 \<or> c = 0x2029
      \<or> c = 0x202F \<or> c = 0x205F \<or> c = 0x3000 \<or> c = 0xFEFF)"

definition trim :: "jsstring \<Rightarrow> jsstring" where
  "trim s = rev (dropWhile isWhiteSpace (rev (dropWhile isWhiteSpace s)))"

text \<open>\<open>a || b\<close> on a string that may be undefined: \<open>undefined\<close> and \<open>''\<close> are falsy.\<close>

definition or_else :: "jsstring option \<Rightarrow> jsstring \<Rightarrow> jsstring" where
  "or_else a b = (case a of None \<Rightarrow> b | Some s \<Rightarrow> if s = [] then b else s)"

section \<open>Regular expressions\<close>

text \<open>
  The fragment of the regular expressions that the page uses: the assertions \<open>^\<close> and
  \<open>$\<close> (no \<open>m\<close> flag: start and end of the input), one character out of a class,
  concatenation, and the bounded quantifiers \<open>?\<close> and \<open>{lo,hi}\<close>.
\<close>

datatype cls = Ch jschar | Range jschar jschar | Digit | Space

fun cls_match :: "cls \<Rightarrow> jschar \<Rightarrow> bool" where
  "cls_match (Ch a) c = (c = a)"
| "cls_match (Range lo hi) c = (lo \<le> c \<and> c \<le> hi)"
| "cls_match Digit c = (0x30 \<le> c \<and> c \<le> 0x39)"
| "cls_match Space c = isWhiteSpace c"

definition in_class :: "cls list \<Rightarrow> jschar \<Rightarrow> bool" where
  "in_class cs c = list_ex (\<lambda>x. cls_match x c) cs"

datatype regex = Bol | Eol | One "cls list" | Cat regex regex | Rep nat nat regex

text \<open>
  A backtracking matcher as a list of successes: a configuration is the index reached
  and the rest of the input; \<open>rmatch r p\<close> lists the configurations in which a match of
  \<open>r\<close> started at \<open>p\<close> can end, the greedy choice first. A quantifier \<open>{lo,hi}\<close> with
  \<open>hi < lo\<close> is a syntax error of the language; \<open>reps\<close> is only used with \<open>lo \<le> hi\<close>.
\<close>

type_synonym cfg = "nat \<times> jsstring"

fun reps :: "nat \<Rightarrow> nat \<Rightarrow> (cfg \<Rightarrow> cfg list) \<Rightarrow> cfg \<Rightarrow> cfg list" where
  "reps 0 0 m p = [p]"
| "reps 0 (Suc hi) m p = concat (map (reps 0 hi m) (m p)) @ [p]"
| "reps (Suc lo) hi m p = concat (map (reps lo (hi - 1) m) (m p))"

fun rmatch :: "regex \<Rightarrow> cfg \<Rightarrow> cfg list" where
  "rmatch Bol (i, s) = (if i = 0 then [(i, s)] else [])"
| "rmatch Eol (i, s) = (if s = [] then [(i, s)] else [])"
| "rmatch (One cs) (i, s) =
     (case s of [] \<Rightarrow> [] | c # t \<Rightarrow> if in_class cs c then [(Suc i, t)] else [])"
| "rmatch (Cat r1 r2) p = concat (map (rmatch r2) (rmatch r1 p))"
| "rmatch (Rep lo hi r) p = reps lo hi (\<lambda>q. rmatch r q) p"

text \<open>\<open>RegExp.prototype.test\<close> without the \<open>g\<close> and \<open>y\<close> flags: a match may start anywhere.\<close>

definition test :: "regex \<Rightarrow> jsstring \<Rightarrow> bool" where
  "test r s = list_ex (\<lambda>i. rmatch r (i, drop i s) \<noteq> []) [0..<Suc (length s)]"

text \<open>
  \<open>s.replace(/[...]/g, by)\<close> for a pattern that is one character class: every code unit of
  the class is replaced.
\<close>

definition replace_class :: "cls list \<Rightarrow> jsstring \<Rightarrow> jsstring \<Rightarrow> jsstring" where
  "replace_class cs by s = concat (map (\<lambda>c. if in_class cs c then by else [c]) s)"

text \<open>\<open>/[\s()-]/g\<close> and \<open>/^\+?[1-9]\d{7,14}$/\<close> of page.tsx.\<close>

definition mobileSeparators :: "cls list" where
  "mobileSeparators = [Space, Ch 0x28, Ch 0x29, Ch 0x2D]"

definition phonePattern :: regex where
  "phonePattern =
     Cat Bol (Cat (Rep 0 1 (One [Ch 0x2B])) (Cat (One [Range 0x31 0x39])
       (Cat (Rep 7 14 (One [Digit])) Eol)))"

section \<open>The collaborators\<close>

record User =
  user_id :: jsstring

datatype session = Session

record api_error =
  message :: "jsstring option"

record signUp_data =
  user :: "User option"
  session :: "session option"

record signUp_response =
  auth_data :: signUp_data
  auth_error :: "api_error option"

record upsert_response =
  upsert_error :: "api_error option"

record signUp_args =
  arg_email :: jsstring
  arg_password :: jsstring
  arg_phone :: "jsstring option"

record payload =
  payload_id :: jsstring
  business_name :: "jsstring option"

text \<open>A call either throws (for an awaited call: a rejected promise) or returns its value.\<close>

datatype 'a completion = Throw | Return 'a

text \<open>
  What the identity provider, the data store and the router answer:
  \<open>supabase.auth.signUp(args)\<close>, \<open>supabase.from(table).upsert(row)\<close> and
  \<open>router.push(path)\<close>. A response of unexpected shape, which makes the reading of it
  throw, is a \<open>Throw\<close> here. Nothing is read from \<open>router.push\<close>, but it is called inside
  the \<open>try\<close> block like the other two, and like any call it may throw.
\<close>

record services =
  auth_signUp :: "signUp_args \<Rightarrow> signUp_response completion"
  from_upsert :: "jsstring \<Rightarrow> payload \<Rightarrow> upsert_response completion"
  router_push :: "jsstring \<Rightarrow> unit completion"

section \<open>Effects\<close>

text \<open>
  The effects of the handler, in the order in which it performs them. A call to a
  collaborator is an effect whether it returns or throws.
\<close>

datatype event =
    PreventDefault
  | SetError jsstring
  | SetIsSubmitting bool
  | SignUp signUp_args
  | Upsert jsstring payload
  | Push jsstring

type_synonym 'a comp = "event list \<times> 'a completion"

definition emit :: "event \<Rightarrow> unit comp" where
  "emit e = ([e], Return ())"

definition await :: "event \<Rightarrow> 'a completion \<Rightarrow> 'a comp" where
  "await e c = ([e], c)"

definition call :: "event \<Rightarrow> unit completion \<Rightarrow> unit comp" where
  "call e c = ([e], c)"

definition and_then :: "'a comp \<Rightarrow> ('a \<Rightarrow> 'b comp) \<Rightarrow> 'b comp" where
  "and_then m f =
     (case m of
        (t, Throw) \<Rightarrow> (t, Throw)
      | (t, Return a) \<Rightarrow> (case f a of (t', c) \<Rightarrow> (t @ t', c)))"

text \<open>
  \<open>try { body } catch { handler } finally { finalizer }\<close>: the handler runs when the body
  throws, the finalizer always, and a throw of either leaves the statement.
\<close>

definition try_catch_finally :: "unit comp \<Rightarrow> unit comp \<Rightarrow> unit comp \<Rightarrow> unit comp" where
  "try_catch_finally body handler finalizer =
     (case body of (t1, c1) \<Rightarrow>
      (case (case c1 of Throw \<Rightarrow> handler | Return v \<Rightarrow> ([], Return v)) of (t2, c2) \<Rightarrow>
       (case finalizer of (t3, c3) \<Rightarrow>
          (t1 @ t2 @ t3, case c3 of Throw \<Rightarrow> Throw | Return v \<Rightarrow> c2))))"

section \<open>The signup page\<close>

text \<open>The state of the component: the \<open>useState\<close> cells of \<open>SignupPage\<close>.\<close>

record page =
  email :: jsstring
  password :: jsstring
  businessName :: jsstring
  error :: jsstring
  isSubmitting :: bool

record page_B = page +
  mobile :: jsstring

text \<open>
  The body of the \<open>try\<close> block after the identity-creation call has returned
  (unnamed/part\_000 lines 43 to 73, page.tsx lines 90 to 120: the same text, reading
  \<open>data.user\<close>, \<open>data.session\<close> in the first and \<open>user\<close>, \<open>sessionExists\<close> in the second).
\<close>

definition after_signUp ::
  "services \<Rightarrow> jsstring \<Rightarrow> api_error option \<Rightarrow> User option \<Rightarrow> bool \<Rightarrow> unit comp" where
  "after_signUp env trimmedBusinessName signUpError usr sessionExists =
     (case signUpError of
        Some e \<Rightarrow>
          emit (SetError (or_else (message e)
            (str ''Unable to create your account. Please try again.'')))
      | None \<Rightarrow>
         (case map_option user_id usr of
            None \<Rightarrow> emit (SetError (str ''Unable to create your account. Please try again.''))
          | Some userId \<Rightarrow>
              if userId = [] then
                emit (SetError (str ''Unable to create your account. Please try again.''))
              else
                (let payload0 = \<lparr>payload_id = userId, business_name = None\<rparr>;
                     payload1 = (if trimmedBusinessName \<noteq> []
                                 then payload0\<lparr>business_name := Some trimmedBusinessName\<rparr>
                                 else payload0)
                 in and_then
                      (await (Upsert (str ''clients'') payload1)
                         (from_upsert env (str ''clients'') payload1))
                      (\<lambda>r. case upsert_error r of
                          Some e \<Rightarrow>
                            emit (SetError (or_else (message e)
                              (str ''Your account was created, but setup failed. Please try logging in.'')))
                        | None \<Rightarrow>
                            if sessionExists then
                              call (Push (str ''/account/setup''))
                                (router_push env (str ''/account/setup''))
                            else
                              call (Push (str ''/signup/check-email''))
                                (router_push env (str ''/signup/check-email''))))))"

text \<open>
  From \<open>setIsSubmitting(true)\<close> to the end of the handler (unnamed/part\_000 lines 35 to 78,
  page.tsx lines 81 to 125), for a given body of the \<open>try\<close> block.
\<close>

definition submitting :: "unit comp \<Rightarrow> unit comp" where
  "submitting body =
     and_then (emit (SetIsSubmitting True)) (\<lambda>_.
       try_catch_finally body
         (emit (SetError (str ''Something went wrong. Please try again.'')))
         (emit (SetIsSubmitting False)))"

subsection \<open>Variant A: unnamed/part\_000\<close>

definition attempt_A :: "services \<Rightarrow> jsstring \<Rightarrow> jsstring \<Rightarrow> jsstring \<Rightarrow> unit comp" where
  "attempt_A env trimmedEmail pw trimmedBusinessName =
     (let args = \<lparr>arg_email = trimmedEmail, arg_password = pw, arg_phone = None\<rparr>
      in and_then (await (SignUp args) (auth_signUp env args)) (\<lambda>r.
           after_signUp env trimmedBusinessName (auth_error r)
             (user (auth_data r)) (session (auth_data r) \<noteq> None)))"

definition handleSubmit_A :: "services \<Rightarrow> page \<Rightarrow> unit comp" where
  "handleSubmit_A env st =
     and_then (emit PreventDefault) (\<lambda>_.
     and_then (emit (SetError [])) (\<lambda>_.
       (let trimmedEmail = trim (email st);
            trimmedBusinessName = trim (businessName st)
        in if trimmedEmail = [] then emit (SetError (str ''Email is required.''))
           else if length (password st) < 8 then
             emit (SetError (str ''Password must be at least 8 characters.''))
           else
             submitting (attempt_A env trimmedEmail (password st) trimmedBusinessName))))"

subsection \<open>Variant B: app/signup/page.tsx\<close>

record SignupParams =
  params_email :: jsstring
  params_password :: jsstring
  params_mobile :: jsstring

record SignupResult =
  result_user :: "User option"
  sessionExists :: bool
  result_error :: "api_error option"

definition signUpWithEmail :: "services \<Rightarrow> SignupParams \<Rightarrow> SignupResult comp" where
  "signUpWithEmail env params =
     (let args = \<lparr>arg_email = params_email params, arg_password = params_password params,
                   arg_phone = Some (params_mobile params)\<rparr>
      in and_then (await (SignUp args) (auth_signUp env args)) (\<lambda>r.
           ([], Return \<lparr>result_user = user (auth_data r),
                        sessionExists = (session (auth_data r) \<noteq> None),
                        result_error = auth_error r\<rparr>)))"

definition attempt_B ::
  "services \<Rightarrow> jsstring \<Rightarrow> jsstring \<Rightarrow> jsstring \<Rightarrow> jsstring \<Rightarrow> unit comp" where
  "attempt_B env trimmedEmail pw normalizedMobile trimmedBusinessName =
     and_then
       (signUpWithEmail env
          \<lparr>params_email = trimmedEmail, params_password = pw,
           params_mobile = normalizedMobile\<rparr>)
       (\<lambda>r. after_signUp env trimmedBusinessName (result_error r)
              (result_user r) (sessionExists r))"

definition handleSubmit_B :: "services \<Rightarrow> page_B \<Rightarrow> unit comp" where
  "handleSubmit_B env st =
     and_then (emit PreventDefault) (\<lambda>_.
     and_then (emit (SetError [])) (\<lambda>_.
       (let trimmedEmail = trim (email st);
            trimmedMobile = trim (mobile st);
            trimmedBusinessName = trim (businessName st)
        in if trimmedEmail = [] then emit (SetError (str ''Email is required.''))
           else if length (password st) < 8 then
             emit (SetError (str ''Password must be at least 8 characters.''))
           else if trimmedMobile = [] then emit (SetError (str ''Mobile is required.''))
           else
             (let normalizedMobile = replace_class mobileSeparators [] trimmedMobile
              in if \<not> test phonePattern normalizedMobile then
                   emit (SetError (str ''Please enter a valid mobile number.''))
                 else
                   submitting
                     (attempt_B env trimmedEmail (password st) normalizedMobile
                        trimmedBusinessName)))))"

section \<open>Observations on an execution\<close>

fun apply_event :: "event \<Rightarrow> 'a page_scheme \<Rightarrow> 'a page_scheme" where
  "apply_event (SetError m) st = st\<lparr>error := m\<rparr>"
| "apply_event (SetIsSubmitting b) st = st\<lparr>isSubmitting := b\<rparr>"
| "apply_event PreventDefault st = st"
| "apply_event (SignUp a) st = st"
| "apply_event (Upsert t p) st = st"
| "apply_event (Push p) st = st"

text \<open>The message that the page renders once the effects \<open>t\<close> have happened.\<close>

definition rendered :: "event list \<Rightarrow> 'a page_scheme \<Rightarrow> jsstring" where
  "rendered t st = error (fold apply_event t st)"

text \<open>The value of \<open>isSubmitting\<close> after each effect of \<open>t\<close>.\<close>

fun flags :: "event list \<Rightarrow> 'a page_scheme \<Rightarrow> bool list" where
  "flags [] st = []"
| "flags (e # es) st = isSubmitting (apply_event e st) # flags es (apply_event e st)"

text \<open>
  The value of \<open>isSubmitting\<close> at each call to a collaborator (the identity provider, the
  data store, the router): the value that the effects before the call have left.
\<close>

fun is_call :: "event \<Rightarrow> bool" where
  "is_call (SignUp a) = True"
| "is_call (Upsert t p) = True"
| "is_call (Push p) = True"
| "is_call PreventDefault = False"
| "is_call (SetError m) = False"
| "is_call (SetIsSubmitting b) = False"

fun flags_at_calls :: "event list \<Rightarrow> 'a page_scheme \<Rightarrow> bool list" where
  "flags_at_calls [] st = []"
| "flags_at_calls (e # es) st =
     (if is_call e then [isSubmitting st] else []) @ flags_at_calls es (apply_event e st)"

fun signUp_of :: "event \<Rightarrow> signUp_args list" where
  "signUp_of (SignUp a) = [a]"
| "signUp_of _ = []"

fun upsert_of :: "event \<Rightarrow> payload list" where
  "upsert_of (Upsert t p) = [p]"
| "upsert_of _ = []"

fun push_of :: "event \<Rightarrow> jsstring list" where
  "push_of (Push p) = [p]"
| "push_of _ = []"

fun message_of :: "event \<Rightarrow> jsstring list" where
  "message_of (SetError m) = (if m = [] then [] else [m])"
| "message_of _ = []"

definition signUp_calls :: "event list \<Rightarrow> signUp_args list" where
  "signUp_calls t = concat (map signUp_of t)"

definition upsert_calls :: "event list \<Rightarrow> payload list" where
  "upsert_calls t = concat (map upsert_of t)"

definition navigations :: "event list \<Rightarrow> jsstring list" where
  "navigations t = concat (map push_of t)"

definition messages :: "event list \<Rightarrow> jsstring list" where
  "messages t = concat (map message_of t)"

text \<open>The effects before the first navigation call.\<close>

definition before_navigation :: "event list \<Rightarrow> event list" where
  "before_navigation t = takeWhile (\<lambda>e. push_of e = []) t"

definition network_calls :: "event list \<Rightarrow> nat" where
  "network_calls t = length (signUp_calls t) + length (upsert_calls t)"

section \<open>The words of the specification\<close>

text \<open>
  The mobile rule as the specification words it: after removing all whitespace and the
  characters \<open>(\<close>, \<open>)\<close>, \<open>-\<close>, an optional leading \<open>+\<close>, then one digit 1 to 9, then
  7 to 14 more digits.
\<close>

definition isDigit :: "jschar \<Rightarrow> bool" where
  "isDigit c = (0x30 \<le> c \<and> c \<le> 0x39)"

definition strip_separators :: "jsstring \<Rightarrow> jsstring" where
  "strip_separators s =
     filter (\<lambda>c. \<not> isWhiteSpace c \<and> c \<noteq> 0x28 \<and> c \<noteq> 0x29 \<and> c \<noteq> 0x2D) s"

definition significant_digits :: "jsstring \<Rightarrow> bool" where
  "significant_digits s =
     (case s of
        [] \<Rightarrow> False
      | d # ds \<Rightarrow> 0x31 \<le> d \<and> d \<le> 0x39 \<and> 7 \<le> length ds \<and> length ds \<le> 14
                 \<and> list_all isDigit ds)"

definition mobile_format :: "jsstring \<Rightarrow> bool" where
  "mobile_format s =
     (significant_digits s
      \<or> (case s of [] \<Rightarrow> False | c # t \<Rightarrow> c = 0x2B \<and> significant_digits t))"

text \<open>Local validation passes: every rule of the Field Validator holds.\<close>

definition passes_A :: "'a page_scheme \<Rightarrow> bool" where
  "passes_A st = (trim (email st) \<noteq> [] \<and> 8 \<le> length (password st))"

definition passes_B :: "page_B \<Rightarrow> bool" where
  "passes_B st =
     (passes_A st \<and> trim (mobile st) \<noteq> []
      \<and> mobile_format (strip_separators (trim (mobile st))))"

text \<open>
  The identity-creation call returned without a provider error and with a usable
  (non-empty) identity id.
\<close>

definition usable_identity :: "signUp_response completion \<Rightarrow> bool" where
  "usable_identity c =
     (case c of
        Throw \<Rightarrow> False
      | Return r \<Rightarrow>
          auth_error r = None
          \<and> (case user (auth_data r) of None \<Rightarrow> False | Some u \<Rightarrow> user_id u \<noteq> []))"

section \<open>The common shape of the two variants\<close>

text \<open>
  Once local validation has passed, both variants perform the same steps on the arguments
  of the identity-creation call and the trimmed business name. \<open>submission\<close> names these
  steps; \<open>handleSubmit_A_passes\<close> and \<open>handleSubmit_B_passes\<close> below prove that each
  handler is equal to it.
\<close>

definition submission :: "services \<Rightarrow> signUp_args \<Rightarrow> jsstring \<Rightarrow> unit comp" where
  "submission env args tbn =
     and_then (emit PreventDefault) (\<lambda>_.
     and_then (emit (SetError [])) (\<lambda>_.
       submitting
         (and_then (await (SignUp args) (auth_signUp env args)) (\<lambda>r.
            after_signUp env tbn (auth_error r) (user (auth_data r))
              (session (auth_data r) \<noteq> None)))))"

section \<open>Sample inputs\<close>

text \<open>Responses of the collaborators.\<close>

definition new_user :: User where
  "new_user = \<lparr>user_id = str ''7f3c''\<rparr>"

definition signed_in :: signUp_response where
  "signed_in = \<lparr>auth_data = \<lparr>user = Some new_user, session = Some Session\<rparr>, auth_error = None\<rparr>"

definition unconfirmed :: signUp_response where
  "unconfirmed = \<lparr>auth_data = \<lparr>user = Some new_user, session = None\<rparr>, auth_error = None\<rparr>"

definition refused :: "jsstring option \<Rightarrow> signUp_response" where
  "refused m = \<lparr>auth_data = \<lparr>user = None, session = None\<rparr>, auth_error = Some \<lparr>message = m\<rparr>\<rparr>"

definition stored :: upsert_response where
  "stored = \<lparr>upsert_error = None\<rparr>"

definition not_stored :: "jsstring option \<Rightarrow> upsert_response" where
  "not_stored m = \<lparr>upsert_error = Some \<lparr>message = m\<rparr>\<rparr>"

definition answering ::
  "signUp_response completion \<Rightarrow> upsert_response completion \<Rightarrow> services" where
  "answering a u = \<lparr>auth_signUp = (\<lambda>args. a), from_upsert = (\<lambda>table row. u),
                     router_push = (\<lambda>path. Return ())\<rparr>"

definition offline :: services where
  "offline = answering Throw Throw"

definition stuck_router :: services where
  "stuck_router = \<lparr>auth_signUp = (\<lambda>args. Return signed_in),
                    from_upsert = (\<lambda>table row. Return stored),
                    router_push = (\<lambda>path. Throw)\<rparr>"

text \<open>Forms, and the arguments of the identity-creation call that the filled ones lead to.\<close>

definition filled :: page where
  "filled = \<lparr>email = str '' ada@example.com'', password = str ''correct horse'',
              businessName = str ''Ada Floors '', error = str ''stale'', isSubmitting = False\<rparr>"

definition filled_B :: "jsstring \<Rightarrow> page_B" where
  "filled_B m = \<lparr>email = str '' ada@example.com'', password = str ''correct horse'',
                 businessName = str '' '', error = str ''stale'', isSubmitting = False,
                 mobile = m\<rparr>"

definition ada_args :: "jsstring option \<Rightarrow> signUp_args" where
  "ada_args ph = \<lparr>arg_email = str ''ada@example.com'', arg_password = str ''correct horse'',
                   arg_phone = ph\<rparr>"

definition ada_row :: "jsstring option \<Rightarrow> payload" where
  "ada_row bn = \<lparr>payload_id = str ''7f3c'', business_name = bn\<rparr>"

definition blank_email :: page where
  "blank_email = \<lparr>email = str '' '', password = str ''correct horse'',
                   businessName = [], error = [], isSubmitting = False\<rparr>"

definition blank_email_B :: page_B where
  "blank_email_B = \<lparr>email = str '' '', password = str ''correct horse'',
                     businessName = [], error = [], isSubmitting = False,
                     mobile = str ''0400 111 222''\<rparr>"

definition short_password :: page where
  "short_password = \<lparr>email = str ''ada@example.com'', password = str ''1234567'',
                      businessName = [], error = [], isSubmitting = False\<rparr>"

definition short_password_B :: page_B where
  "short_password_B = \<lparr>email = str ''ada@example.com'', password = str ''1234567'',
                        businessName = [], error = [], isSubmitting = False, mobile = []\<rparr>"

section \<open>The regular expression and the words of the specification\<close>

lemma reps_end:
  "lo \<le> hi \<Longrightarrow>
   (\<exists>j. (j, []) \<in> set (reps lo hi (\<lambda>q. rmatch (One cs) q) (i, s)))
     \<longleftrightarrow> (lo \<le> length s \<and> length s \<le> hi \<and> list_all (in_class cs) s)"
proof (induction s arbitrary: lo hi i)
  case Nil
  then show ?case by (cases lo; cases hi) auto
next
  case (Cons c t)
  show ?case
  proof (cases lo)
    case 0
    then show ?thesis
    proof (cases hi)
      case 0
      with \<open>lo = 0\<close> show ?thesis by simp
    next
      case (Suc h)
      with \<open>lo = 0\<close> Cons.IH[of 0 h "Suc i"] show ?thesis by auto
    qed
  next
    case (Suc l)
    with Cons.prems obtain h where h: "hi = Suc h" "l \<le> h" by (cases hi) auto
    with Suc Cons.IH[of l h "Suc i"] show ?thesis by auto
  qed
qed

lemma in_class_Digit: "in_class [Digit] = isDigit"
  by (rule ext) (simp add: in_class_def isDigit_def)

lemma Cat_nonempty:
  "rmatch (Cat r1 r2) p \<noteq> [] \<longleftrightarrow> (\<exists>q\<in>set (rmatch r1 p). rmatch r2 q \<noteq> [])"
  by simp

lemma Eol_nonempty: "rmatch Eol q \<noteq> [] \<longleftrightarrow> snd q = []"
  by (cases q) simp

lemma One_step:
  "set (rmatch (One cs) (i, s)) = (case s of [] \<Rightarrow> {} | c # t \<Rightarrow> if in_class cs c then {(Suc i, t)} else {})"
  by (simp split: list.splits)

lemma digits_then_end:
  "rmatch (Cat (Rep 7 14 (One [Digit])) Eol) (i, s) \<noteq> []
     \<longleftrightarrow> (7 \<le> length s \<and> length s \<le> 14 \<and> list_all isDigit s)"
proof -
  have "rmatch (Cat (Rep 7 14 (One [Digit])) Eol) (i, s) \<noteq> []
          \<longleftrightarrow> (\<exists>q\<in>set (reps 7 14 (\<lambda>q. rmatch (One [Digit]) q) (i, s)). snd q = [])"
    unfolding Cat_nonempty Eol_nonempty by simp
  also have "\<dots> \<longleftrightarrow> (\<exists>j. (j, []) \<in> set (reps 7 14 (\<lambda>q. rmatch (One [Digit]) q) (i, s)))"
    by force
  finally show ?thesis
    using reps_end[of 7 14 "[Digit]" i s] by (simp add: in_class_Digit)
qed

lemma significant_then_end:
  "rmatch (Cat (One [Range 0x31 0x39]) (Cat (Rep 7 14 (One [Digit])) Eol)) (i, s) \<noteq> []
     \<longleftrightarrow> significant_digits s"
proof (cases s)
  case Nil
  then show ?thesis unfolding Cat_nonempty[of "One _"] One_step by (simp add: significant_digits_def)
next
  case (Cons d ds)
  have "in_class [Range 0x31 0x39] d \<longleftrightarrow> 0x31 \<le> d \<and> d \<le> 0x39"
    by (simp add: in_class_def)
  with Cons show ?thesis
    unfolding Cat_nonempty[of "One _"] One_step
    using digits_then_end[of "Suc i" ds]
    by (auto simp: significant_digits_def simp del: rmatch.simps)
qed

lemma optional_plus:
  "set (rmatch (Rep 0 1 (One [Ch 0x2B])) (i, s)) =
     (case s of [] \<Rightarrow> {} | c # t \<Rightarrow> if c = 0x2B then {(Suc i, t)} else {}) \<union> {(i, s)}"
proof -
  have "reps 0 1 m p = concat (map (reps 0 0 m) (m p)) @ [p]" for m p
    using reps.simps(2)[of 0 m p] by simp
  then show ?thesis
    by (auto simp: in_class_def split: list.splits if_splits)
qed

lemma Bol_step: "set (rmatch Bol (i, s)) = (if i = 0 then {(i, s)} else {})"
  by simp

lemma phonePattern_at:
  "rmatch phonePattern (i, s) \<noteq> [] \<longleftrightarrow> i = 0 \<and> mobile_format s"
proof -
  let ?rest = "Cat (One [Range 0x31 0x39]) (Cat (Rep 7 14 (One [Digit])) Eol)"
  have "rmatch phonePattern (i, s) \<noteq> [] \<longleftrightarrow>
          i = 0 \<and> (\<exists>q\<in>set (rmatch (Rep 0 1 (One [Ch 0x2B])) (i, s)). rmatch ?rest q \<noteq> [])"
    unfolding phonePattern_def Cat_nonempty[of Bol] Cat_nonempty[of "Rep 0 1 _"] Bol_step
    by simp
  then show ?thesis
    unfolding optional_plus
    using significant_then_end[of i s] significant_then_end[of "Suc i" "tl s"]
    by (cases s) (auto simp: mobile_format_def simp del: rmatch.simps)
qed

lemma test_phonePattern: "test phonePattern s = mobile_format s"
proof -
  have "test phonePattern s \<longleftrightarrow> (\<exists>i\<in>{0..<Suc (length s)}. i = 0 \<and> mobile_format (drop i s))"
    unfolding test_def list_ex_iff using phonePattern_at by simp
  then show ?thesis by auto
qed

lemma replace_mobileSeparators: "replace_class mobileSeparators [] s = strip_separators s"
  by (induction s) (simp_all add: replace_class_def strip_separators_def mobileSeparators_def in_class_def)

section \<open>The handler, path by path\<close>

lemma str_Nil_iff [simp]: "str s = [] \<longleftrightarrow> s = []"
  by (simp add: str_def)

lemma submitting_eq:
  "submitting body =
     ([SetIsSubmitting True] @ fst body
        @ (case snd body of Throw \<Rightarrow> [SetError (str ''Something went wrong. Please try again.'')]
           | Return v \<Rightarrow> [])
        @ [SetIsSubmitting False], Return ())"
  by (cases body) (simp add: submitting_def and_then_def emit_def try_catch_finally_def split: completion.splits)

lemma after_signUp_eq:
  "after_signUp env tbn err usr sess =
    (case err of
       Some e \<Rightarrow> ([SetError (or_else (message e) (str ''Unable to create your account. Please try again.''))], Return ())
     | None \<Rightarrow>
        (case usr of
           None \<Rightarrow> ([SetError (str ''Unable to create your account. Please try again.'')], Return ())
         | Some u \<Rightarrow>
            if user_id u = [] then ([SetError (str ''Unable to create your account. Please try again.'')], Return ())
            else
             (case from_upsert env (str ''clients'') \<lparr>payload_id = user_id u, business_name = (if tbn = [] then None else Some tbn)\<rparr> of
                Throw \<Rightarrow> ([Upsert (str ''clients'') \<lparr>payload_id = user_id u, business_name = (if tbn = [] then None else Some tbn)\<rparr>], Throw)
              | Return r \<Rightarrow>
                 ([Upsert (str ''clients'') \<lparr>payload_id = user_id u, business_name = (if tbn = [] then None else Some tbn)\<rparr>,
                   (case upsert_error r of
                      Some e \<Rightarrow> SetError (or_else (message e) (str ''Your account was created, but setup failed. Please try logging in.''))
                    | None \<Rightarrow> Push (if sess then str ''/account/setup'' else str ''/signup/check-email''))],
                  (case upsert_error r of
                     Some e \<Rightarrow> Return ()
                   | None \<Rightarrow> router_push env (if sess then str ''/account/setup'' else str ''/signup/check-email''))))))"
  by (simp add: after_signUp_def emit_def await_def call_def and_then_def Let_def
        split: option.splits completion.splits)

lemmas observations = signUp_calls_def upsert_calls_def navigations_def messages_def network_calls_def rendered_def


lemma handleSubmit_A_fails:
  "trim (email st) = [] \<Longrightarrow>
     handleSubmit_A env st = ([PreventDefault, SetError [], SetError (str ''Email is required.'')], Return ())"
  "trim (email st) \<noteq> [] \<Longrightarrow> length (password st) < 8 \<Longrightarrow>
     handleSubmit_A env st =
       ([PreventDefault, SetError [], SetError (str ''Password must be at least 8 characters.'')], Return ())"
  by (simp_all add: handleSubmit_A_def emit_def and_then_def Let_def)

lemma handleSubmit_A_passes:
  "passes_A st \<Longrightarrow>
     handleSubmit_A env st =
       submission env \<lparr>arg_email = trim (email st), arg_password = password st, arg_phone = None\<rparr>
         (trim (businessName st))"
  by (simp add: handleSubmit_A_def submission_def attempt_A_def passes_A_def Let_def)

lemma handleSubmit_B_fails:
  "trim (email st) = [] \<Longrightarrow>
     handleSubmit_B env st = ([PreventDefault, SetError [], SetError (str ''Email is required.'')], Return ())"
  "trim (email st) \<noteq> [] \<Longrightarrow> length (password st) < 8 \<Longrightarrow>
     handleSubmit_B env st =
       ([PreventDefault, SetError [], SetError (str ''Password must be at least 8 characters.'')], Return ())"
  "passes_A st \<Longrightarrow> trim (mobile st) = [] \<Longrightarrow>
     handleSubmit_B env st = ([PreventDefault, SetError [], SetError (str ''Mobile is required.'')], Return ())"
  "passes_A st \<Longrightarrow> trim (mobile st) \<noteq> [] \<Longrightarrow> \<not> mobile_format (strip_separators (trim (mobile st))) \<Longrightarrow>
     handleSubmit_B env st =
       ([PreventDefault, SetError [], SetError (str ''Please enter a valid mobile number.'')], Return ())"
  by (simp_all add: handleSubmit_B_def emit_def and_then_def Let_def passes_A_def
        test_phonePattern replace_mobileSeparators)

lemma signUpWithEmail_then:
  "and_then (signUpWithEmail env \<lparr>params_email = em, params_password = pw, params_mobile = mob\<rparr>)
     (\<lambda>r. k (result_error r) (result_user r) (sessionExists r))
   = and_then (await (SignUp \<lparr>arg_email = em, arg_password = pw, arg_phone = Some mob\<rparr>)
                (auth_signUp env \<lparr>arg_email = em, arg_password = pw, arg_phone = Some mob\<rparr>))
       (\<lambda>r. k (auth_error r) (user (auth_data r)) (session (auth_data r) \<noteq> None))"
  by (simp add: signUpWithEmail_def await_def and_then_def Let_def split: completion.splits prod.splits)

lemma handleSubmit_B_passes:
  "passes_B st \<Longrightarrow>
     handleSubmit_B env st =
       submission env \<lparr>arg_email = trim (email st), arg_password = password st,
                       arg_phone = Some (strip_separators (trim (mobile st)))\<rparr>
         (trim (businessName st))"
  by (simp add: handleSubmit_B_def submission_def attempt_B_def passes_B_def passes_A_def Let_def
        test_phonePattern replace_mobileSeparators signUpWithEmail_then)

lemma submission_cases [case_names signUp_throws provider_error no_identity upsert_throws upsert_error
    navigated push_throws]:
  fixes env :: services and args :: signUp_args and tbn :: jsstring
  defines "row \<equiv> \<lambda>u. \<lparr>payload_id = user_id u, business_name = (if tbn = [] then None else Some tbn)\<rparr>"
  obtains
    "auth_signUp env args = Throw"
    "submission env args tbn =
       ([PreventDefault, SetError [], SetIsSubmitting True, SignUp args,
         SetError (str ''Something went wrong. Please try again.''), SetIsSubmitting False], Return ())"
  | r e where "auth_signUp env args = Return r" "auth_error r = Some e"
    "submission env args tbn =
       ([PreventDefault, SetError [], SetIsSubmitting True, SignUp args,
         SetError (or_else (message e) (str ''Unable to create your account. Please try again.'')),
         SetIsSubmitting False], Return ())"
  | r where "auth_signUp env args = Return r" "auth_error r = None" "\<not> usable_identity (Return r)"
    "submission env args tbn =
       ([PreventDefault, SetError [], SetIsSubmitting True, SignUp args,
         SetError (str ''Unable to create your account. Please try again.''),
         SetIsSubmitting False], Return ())"
  | r u where "auth_signUp env args = Return r" "auth_error r = None"
    "user (auth_data r) = Some u" "user_id u \<noteq> []"
    "from_upsert env (str ''clients'') (row u) = Throw"
    "submission env args tbn =
       ([PreventDefault, SetError [], SetIsSubmitting True, SignUp args, Upsert (str ''clients'') (row u),
         SetError (str ''Something went wrong. Please try again.''), SetIsSubmitting False], Return ())"
  | r u w e where "auth_signUp env args = Return r" "auth_error r = None"
    "user (auth_data r) = Some u" "user_id u \<noteq> []"
    "from_upsert env (str ''clients'') (row u) = Return w" "upsert_error w = Some e"
    "submission env args tbn =
       ([PreventDefault, SetError [], SetIsSubmitting True, SignUp args, Upsert (str ''clients'') (row u),
         SetError (or_else (message e)
           (str ''Your account was created, but setup failed. Please try logging in.'')),
         SetIsSubmitting False], Return ())"
  | r u w where "auth_signUp env args = Return r" "auth_error r = None"
    "user (auth_data r) = Some u" "user_id u \<noteq> []"
    "from_upsert env (str ''clients'') (row u) = Return w" "upsert_error w = None"
    "router_push env (if session (auth_data r) \<noteq> None then str ''/account/setup''
                      else str ''/signup/check-email'') = Return ()"
    "submission env args tbn =
       ([PreventDefault, SetError [], SetIsSubmitting True, SignUp args, Upsert (str ''clients'') (row u),
         Push (if session (auth_data r) \<noteq> None then str ''/account/setup''
               else str ''/signup/check-email''),
         SetIsSubmitting False], Return ())"
  | r u w where "auth_signUp env args = Return r" "auth_error r = None"
    "user (auth_data r) = Some u" "user_id u \<noteq> []"
    "from_upsert env (str ''clients'') (row u) = Return w" "upsert_error w = None"
    "router_push env (if session (auth_data r) \<noteq> None then str ''/account/setup''
                      else str ''/signup/check-email'') = Throw"
    "submission env args tbn =
       ([PreventDefault, SetError [], SetIsSubmitting True, SignUp args, Upsert (str ''clients'') (row u),
         Push (if session (auth_data r) \<noteq> None then str ''/account/setup''
               else str ''/signup/check-email''),
         SetError (str ''Something went wrong. Please try again.''),
         SetIsSubmitting False], Return ())"
proof -
  let ?after = "\<lambda>r. after_signUp env tbn (auth_error r) (user (auth_data r)) (session (auth_data r) \<noteq> None)"
  have sub: "submission env args tbn =
      (PreventDefault # SetError [] # fst (submitting (and_then (await (SignUp args) (auth_signUp env args)) ?after)),
       Return ())"
    by (simp add: submission_def and_then_def emit_def submitting_eq)
  show ?thesis
  proof (cases "auth_signUp env args")
    case Throw
    then have "submission env args tbn = ([PreventDefault, SetError [], SetIsSubmitting True, SignUp args,
           SetError (str ''Something went wrong. Please try again.''), SetIsSubmitting False], Return ())"
      by (simp add: sub submitting_eq and_then_def await_def)
    with Throw that(1) show ?thesis by blast
  next
    case (Return r)
    then have "and_then (await (SignUp args) (auth_signUp env args)) ?after =
        (SignUp args # fst (?after r), snd (?after r))"
      by (simp add: and_then_def await_def split: prod.splits)
    then have body: "submission env args tbn =
        (PreventDefault # SetError [] # SetIsSubmitting True # SignUp args # fst (?after r)
           @ (case snd (?after r) of
                Throw \<Rightarrow> [SetError (str ''Something went wrong. Please try again.'')]
              | Return v \<Rightarrow> [])
           @ [SetIsSubmitting False], Return ())"
      by (simp add: sub submitting_eq)
    show ?thesis
    proof (cases "auth_error r")
      case (Some e)
      then have "submission env args tbn = ([PreventDefault, SetError [], SetIsSubmitting True, SignUp args,
           SetError (or_else (message e) (str ''Unable to create your account. Please try again.'')),
           SetIsSubmitting False], Return ())"
        by (simp add: body after_signUp_eq)
      with Return Some that(2) show ?thesis by blast
    next
      case None
      show ?thesis
      proof (cases "usable_identity (Return r)")
        case False
        with None have "submission env args tbn = ([PreventDefault, SetError [], SetIsSubmitting True, SignUp args,
           SetError (str ''Unable to create your account. Please try again.''),
           SetIsSubmitting False], Return ())"
          by (simp add: body after_signUp_eq usable_identity_def split: option.splits)
        with Return None False that(3) show ?thesis by blast
      next
        case True
        with None obtain u where u: "user (auth_data r) = Some u" "user_id u \<noteq> []"
          by (auto simp: usable_identity_def split: option.splits)
        show ?thesis
        proof (cases "from_upsert env (str ''clients'') (row u)")
          case Throw
          with None u have "submission env args tbn = ([PreventDefault, SetError [], SetIsSubmitting True, SignUp args,
             Upsert (str ''clients'') (row u),
             SetError (str ''Something went wrong. Please try again.''), SetIsSubmitting False], Return ())"
            unfolding row_def by (simp add: body after_signUp_eq)
          with Return None u Throw that(4) show ?thesis by blast
        next
          case w: (Return w)
          show ?thesis
          proof (cases "upsert_error w")
            case (Some e)
            with None u w have "submission env args tbn = ([PreventDefault, SetError [], SetIsSubmitting True, SignUp args,
               Upsert (str ''clients'') (row u),
               SetError (or_else (message e)
                 (str ''Your account was created, but setup failed. Please try logging in.'')),
               SetIsSubmitting False], Return ())"
              unfolding row_def by (simp add: body after_signUp_eq)
            with Return None u w Some that(5) show ?thesis by blast
          next
            case nw: None
            let ?target = "if session (auth_data r) \<noteq> None then str ''/account/setup''
                           else str ''/signup/check-email''"
            show ?thesis
            proof (cases "router_push env ?target")
              case pushed: (Return v)
              with None u w nw have "submission env args tbn = ([PreventDefault, SetError [], SetIsSubmitting True, SignUp args,
                 Upsert (str ''clients'') (row u), Push ?target, SetIsSubmitting False], Return ())"
                unfolding row_def by (simp add: body after_signUp_eq)
              with Return None u w nw pushed that(6) show ?thesis by simp
            next
              case stuck: Throw
              with None u w nw have "submission env args tbn = ([PreventDefault, SetError [], SetIsSubmitting True, SignUp args,
                 Upsert (str ''clients'') (row u), Push ?target,
                 SetError (str ''Something went wrong. Please try again.''),
                 SetIsSubmitting False], Return ())"
                unfolding row_def by (simp add: body after_signUp_eq)
              with Return None u w nw stuck that(7) show ?thesis by simp
            qed
          qed
        qed
      qed
    qed
  qed
qed

lemma handleSubmit_A_cases [case_names no_email short_password passes]:
  obtains
    "trim (email st) = []"
    "handleSubmit_A env st = ([PreventDefault, SetError [], SetError (str ''Email is required.'')], Return ())"
  | "trim (email st) \<noteq> []" "length (password st) < 8"
    "handleSubmit_A env st =
       ([PreventDefault, SetError [], SetError (str ''Password must be at least 8 characters.'')], Return ())"
  | "passes_A st"
    "handleSubmit_A env st =
       submission env \<lparr>arg_email = trim (email st), arg_password = password st, arg_phone = None\<rparr>
         (trim (businessName st))"
  using handleSubmit_A_fails[of st env] handleSubmit_A_passes[of st env]
  by (cases "trim (email st) = []"; cases "length (password st) < 8") (auto simp: passes_A_def)

lemma handleSubmit_B_cases [case_names no_email short_password no_mobile bad_mobile passes]:
  obtains
    "trim (email st) = []"
    "handleSubmit_B env st = ([PreventDefault, SetError [], SetError (str ''Email is required.'')], Return ())"
  | "trim (email st) \<noteq> []" "length (password st) < 8"
    "handleSubmit_B env st =
       ([PreventDefault, SetError [], SetError (str ''Password must be at least 8 characters.'')], Return ())"
  | "passes_A st" "trim (mobile st) = []"
    "handleSubmit_B env st = ([PreventDefault, SetError [], SetError (str ''Mobile is required.'')], Return ())"
  | "passes_A st" "trim (mobile st) \<noteq> []" "\<not> mobile_format (strip_separators (trim (mobile st)))"
    "handleSubmit_B env st =
       ([PreventDefault, SetError [], SetError (str ''Please enter a valid mobile number.'')], Return ())"
  | "passes_B st"
    "handleSubmit_B env st =
       submission env \<lparr>arg_email = trim (email st), arg_password = password st,
                       arg_phone = Some (strip_separators (trim (mobile st)))\<rparr>
         (trim (businessName st))"
  using handleSubmit_B_fails[of st env] handleSubmit_B_passes[of st env]
  by (cases "trim (email st) = []"; cases "length (password st) < 8"; cases "trim (mobile st) = []";
      cases "mobile_format (strip_separators (trim (mobile st)))")
     (auto simp: passes_A_def passes_B_def)

section \<open>The sample inputs, evaluated\<close>

lemma submission_signUp_calls: "signUp_calls (fst (submission env args tbn)) = [args]"
  by (cases rule: submission_cases[of env args tbn]) (simp_all add: observations)

lemma answering_simps:
  "auth_signUp (answering a u) args = a"
  "from_upsert (answering a u) table row = u"
  "router_push (answering a u) path = Return ()"
  by (simp_all add: answering_def)


lemma sample_simps:
  "auth_error signed_in = None" "user (auth_data signed_in) = Some new_user"
  "session (auth_data signed_in) = Some Session"
  "auth_error unconfirmed = None" "user (auth_data unconfirmed) = Some new_user"
  "session (auth_data unconfirmed) = None"
  "auth_error (refused m) = Some \<lparr>message = m\<rparr>"
  "user_id new_user = str ''7f3c''"
  "upsert_error stored = None" "upsert_error (not_stored m) = Some \<lparr>message = m\<rparr>"
  "usable_identity (Return signed_in)" "usable_identity (Return unconfirmed)"
  by (simp_all add: signed_in_def unconfirmed_def refused_def new_user_def stored_def not_stored_def
        usable_identity_def)

lemma run_answering:
  "fst (submission (answering a u) args tbn) =
     [PreventDefault, SetError [], SetIsSubmitting True, SignUp args] @
     (case a of
        Throw \<Rightarrow> [SetError (str ''Something went wrong. Please try again.'')]
      | Return r \<Rightarrow>
         (case auth_error r of
            Some e \<Rightarrow> [SetError (or_else (message e) (str ''Unable to create your account. Please try again.''))]
          | None \<Rightarrow>
             (case user (auth_data r) of
                None \<Rightarrow> [SetError (str ''Unable to create your account. Please try again.'')]
              | Some w \<Rightarrow>
                  if user_id w = [] then [SetError (str ''Unable to create your account. Please try again.'')]
                  else
                    Upsert (str ''clients'')
                      \<lparr>payload_id = user_id w, business_name = (if tbn = [] then None else Some tbn)\<rparr>
                    # (case u of
                         Throw \<Rightarrow> [SetError (str ''Something went wrong. Please try again.'')]
                       | Return x \<Rightarrow>
                          (case upsert_error x of
                             Some e \<Rightarrow> [SetError (or_else (message e)
                                 (str ''Your account was created, but setup failed. Please try logging in.''))]
                           | None \<Rightarrow> [Push (if session (auth_data r) \<noteq> None then str ''/account/setup''
                                               else str ''/signup/check-email'')])))))
     @ [SetIsSubmitting False]"
  by (cases rule: submission_cases[of "answering a u" args tbn])
     (simp_all add: answering_simps usable_identity_def split: option.splits)

lemma filled_fields:
  "trim (email filled) = str ''ada@example.com''"
  "password filled = str ''correct horse''"
  "trim (businessName filled) = str ''Ada Floors''"
  "error filled = str ''stale''"
  "isSubmitting filled = False"
  by (simp_all add: filled_def trim_def isWhiteSpace_def str_def)

lemma filled_passes: "passes_A filled"
  by (simp add: passes_A_def filled_fields) (simp add: str_def)

lemma filled_B_fields:
  "trim (email (filled_B m)) = str ''ada@example.com''"
  "password (filled_B m) = str ''correct horse''"
  "trim (businessName (filled_B m)) = []"
  "mobile (filled_B m) = m"
  "isSubmitting (filled_B m) = False"
  by (simp_all add: filled_B_def trim_def isWhiteSpace_def str_def)

lemma filled_B_passes_A: "passes_A (filled_B m)"
  by (simp add: passes_A_def filled_B_fields) (simp add: str_def)

lemma mobile_samples:
  "trim (str ''+61400111222'') = str ''+61400111222''"
  "strip_separators (str ''+61400111222'') = str ''+61400111222''"
  "mobile_format (str ''+61400111222'')"
  "trim (str ''0400 111 222'') = str ''0400 111 222''"
  "strip_separators (str ''0400 111 222'') = str ''0400111222''"
  "\<not> mobile_format (str ''0400111222'')"
  "trim (str '' '') = []"
  by (simp_all add: trim_def strip_separators_def mobile_format_def significant_digits_def
        isDigit_def isWhiteSpace_def str_def)

lemma filled_B_passes: "passes_B (filled_B (str ''+61400111222''))"
  by (simp add: passes_B_def filled_B_passes_A filled_B_fields mobile_samples)

lemma run_A_filled:
  "handleSubmit_A env filled = submission env (ada_args None) (str ''Ada Floors'')"
  using handleSubmit_A_passes[OF filled_passes, of env] by (simp add: filled_fields ada_args_def)

lemma run_B_filled:
  "handleSubmit_B env (filled_B (str ''+61400111222'')) =
     submission env (ada_args (Some (str ''+61400111222''))) []"
  using handleSubmit_B_passes[OF filled_B_passes, of env]
  by (simp add: filled_B_fields mobile_samples ada_args_def)

lemma calls_filled:
  "signUp_calls (fst (handleSubmit_A env filled)) = [ada_args None]"
  "signUp_calls (fst (handleSubmit_B env (filled_B (str ''+61400111222''))))
     = [ada_args (Some (str ''+61400111222''))]"
  by (simp_all add: run_A_filled run_B_filled submission_signUp_calls)

lemma upserts_filled:
  "upsert_calls (fst (handleSubmit_A (answering (Return signed_in) u) filled))
     = [ada_row (Some (str ''Ada Floors''))]"
  "upsert_calls (fst (handleSubmit_B (answering (Return signed_in) u) (filled_B (str ''+61400111222''))))
     = [ada_row None]"
  "upsert_calls (fst (handleSubmit_B (answering (Return unconfirmed) u) (filled_B (str ''+61400111222''))))
     = [ada_row None]"
  by (simp_all add: run_A_filled run_B_filled run_answering sample_simps ada_row_def upsert_calls_def
        split: completion.splits option.splits)

lemma welcome_A:
  "fst (handleSubmit_A (answering (Return signed_in) (Return stored)) filled) =
     [PreventDefault, SetError [], SetIsSubmitting True, SignUp (ada_args None),
      Upsert (str ''clients'') (ada_row (Some (str ''Ada Floors''))),
      Push (str ''/account/setup''), SetIsSubmitting False]"
  by (simp add: run_A_filled run_answering sample_simps ada_row_def)

lemma welcome_B:
  "fst (handleSubmit_B (answering (Return signed_in) (Return stored)) (filled_B (str ''+61400111222''))) =
     [PreventDefault, SetError [], SetIsSubmitting True, SignUp (ada_args (Some (str ''+61400111222''))),
      Upsert (str ''clients'') (ada_row None),
      Push (str ''/account/setup''), SetIsSubmitting False]"
  by (simp add: run_B_filled run_answering sample_simps ada_row_def)

lemma later_B:
  "fst (handleSubmit_B (answering (Return unconfirmed) (Return stored)) (filled_B (str ''+61400111222''))) =
     [PreventDefault, SetError [], SetIsSubmitting True, SignUp (ada_args (Some (str ''+61400111222''))),
      Upsert (str ''clients'') (ada_row None),
      Push (str ''/signup/check-email''), SetIsSubmitting False]"
  by (simp add: run_B_filled run_answering sample_simps ada_row_def)

lemma no_network:
  "fst (handleSubmit_A offline filled) =
     [PreventDefault, SetError [], SetIsSubmitting True, SignUp (ada_args None),
      SetError (str ''Something went wrong. Please try again.''), SetIsSubmitting False]"
  "fst (handleSubmit_B offline (filled_B (str ''+61400111222''))) =
     [PreventDefault, SetError [], SetIsSubmitting True, SignUp (ada_args (Some (str ''+61400111222''))),
      SetError (str ''Something went wrong. Please try again.''), SetIsSubmitting False]"
  by (simp_all add: run_A_filled run_B_filled offline_def run_answering)

lemma stuck_simps:
  "auth_signUp stuck_router args = Return signed_in"
  "from_upsert stuck_router table row = Return stored"
  "router_push stuck_router path = Throw"
  by (simp_all add: stuck_router_def)

lemma stuck_submission:
  "fst (submission stuck_router args tbn) =
     [PreventDefault, SetError [], SetIsSubmitting True, SignUp args,
      Upsert (str ''clients'') (ada_row (if tbn = [] then None else Some tbn)),
      Push (str ''/account/setup''),
      SetError (str ''Something went wrong. Please try again.''), SetIsSubmitting False]"
  by (cases rule: submission_cases[of stuck_router args tbn])
     (simp_all add: stuck_simps sample_simps ada_row_def)

lemma stuck_runs:
  "fst (handleSubmit_A stuck_router filled) =
     [PreventDefault, SetError [], SetIsSubmitting True, SignUp (ada_args None),
      Upsert (str ''clients'') (ada_row (Some (str ''Ada Floors''))),
      Push (str ''/account/setup''),
      SetError (str ''Something went wrong. Please try again.''), SetIsSubmitting False]"
  "fst (handleSubmit_B stuck_router (filled_B (str ''+61400111222''))) =
     [PreventDefault, SetError [], SetIsSubmitting True, SignUp (ada_args (Some (str ''+61400111222''))),
      Upsert (str ''clients'') (ada_row None),
      Push (str ''/account/setup''),
      SetError (str ''Something went wrong. Please try again.''), SetIsSubmitting False]"
  by (simp_all add: run_A_filled run_B_filled stuck_submission)

lemma blank_fields:
  "trim (email blank_email) = []" "isSubmitting blank_email = False"
  "trim (email blank_email_B) = []" "isSubmitting blank_email_B = False"
  "mobile blank_email_B = str ''0400 111 222''"
  "trim (email short_password) \<noteq> []" "length (password short_password) < 8"
  "trim (email short_password_B) \<noteq> []" "length (password short_password_B) < 8"
  by (simp_all add: blank_email_def blank_email_B_def short_password_def short_password_B_def
        trim_def isWhiteSpace_def str_def)

section \<open>The claims\<close>

subsection \<open>C1: the upsert is attempted exactly after a usable identity\<close>

lemma upsert_core:
  "upsert_calls (fst (submission env args tbn)) \<noteq> []
     \<longleftrightarrow> (\<exists>a\<in>set (signUp_calls (fst (submission env args tbn))). usable_identity (auth_signUp env a))"
  by (cases rule: submission_cases[of env args tbn])
     (simp_all add: observations usable_identity_def)

text \<open>
  C1. In every execution of the submit handler, of either variant, the client-record
  upsert is attempted if and only if the identity-creation call of that execution
  returned without a provider error and with a non-empty identity id. So after a provider
  error, a missing or empty id, a throwing call or a failed local validation, no upsert
  call is made.
\<close>

theorem upsert_iff_usable_identity:
  "(upsert_calls (fst (handleSubmit_A env st)) \<noteq> []
      \<longleftrightarrow> (\<exists>a\<in>set (signUp_calls (fst (handleSubmit_A env st))). usable_identity (auth_signUp env a)))
   \<and> (upsert_calls (fst (handleSubmit_B env st')) \<noteq> []
      \<longleftrightarrow> (\<exists>a\<in>set (signUp_calls (fst (handleSubmit_B env st'))). usable_identity (auth_signUp env a)))"
proof
  show "upsert_calls (fst (handleSubmit_A env st)) \<noteq> []
      \<longleftrightarrow> (\<exists>a\<in>set (signUp_calls (fst (handleSubmit_A env st))). usable_identity (auth_signUp env a))"
    by (cases rule: handleSubmit_A_cases[of st env]) (simp_all add: upsert_core, simp_all add: observations)
  show "upsert_calls (fst (handleSubmit_B env st')) \<noteq> []
      \<longleftrightarrow> (\<exists>a\<in>set (signUp_calls (fst (handleSubmit_B env st'))). usable_identity (auth_signUp env a))"
    by (cases rule: handleSubmit_B_cases[of st' env]) (simp_all add: upsert_core, simp_all add: observations)
qed

theorem upsert_iff_usable_identity_witness:
  "usable_identity (auth_signUp (answering (Return signed_in) (Return stored)) (ada_args None))
   \<and> upsert_calls (fst (handleSubmit_A (answering (Return signed_in) (Return stored)) filled)) \<noteq> []
   \<and> \<not> usable_identity (auth_signUp (answering (Return (refused None)) (Return stored))
            (ada_args (Some (str ''+61400111222''))))
   \<and> upsert_calls (fst (handleSubmit_B (answering (Return (refused None)) (Return stored))
                          (filled_B (str ''+61400111222'')))) = []"
proof -
  have "usable_identity (auth_signUp (answering (Return signed_in) (Return stored)) (ada_args None))"
    "\<not> usable_identity (auth_signUp (answering (Return (refused None)) (Return stored))
            (ada_args (Some (str ''+61400111222''))))"
    by (simp_all add: answering_simps sample_simps usable_identity_def)
  then show ?thesis
    using upsert_iff_usable_identity[of "answering (Return signed_in) (Return stored)" filled]
      upsert_iff_usable_identity[of "answering (Return (refused None)) (Return stored)" _
        "filled_B (str ''+61400111222'')"]
    by (simp add: calls_filled)
qed

subsection \<open>C2: the mobile format rule of variant B\<close>

text \<open>
  C2. In variant B the mobile format rule is the fourth rule of the ordered validator
  (page.tsx lines 73 to 88): it is reached by the inputs that pass the email and password
  rules and whose trimmed mobile is non-empty. For every such input: when the mobile, after
  removing all whitespace and the characters \<open>(\<close>, \<open>)\<close>, \<open>-\<close>, is not an optional leading
  \<open>+\<close>, one digit 1 to 9 and 7 to 14 more digits, the submission aborts with exactly
  \<open>Please enter a valid mobile number.\<close> and no network call is made; when it is, the
  identity-creation call is made with the mobile in this normalized form. In particular
  \<open>0400 111 222\<close> is rejected and \<open>+61400111222\<close> is accepted and passed on as it is.
\<close>

theorem mobile_rule:
  "passes_A st \<and> trim (mobile st) \<noteq> [] \<longrightarrow>
     (\<not> mobile_format (strip_separators (trim (mobile st))) \<longrightarrow>
        rendered (fst (handleSubmit_B env st)) st = str ''Please enter a valid mobile number.''
        \<and> messages (fst (handleSubmit_B env st)) = [str ''Please enter a valid mobile number.'']
        \<and> network_calls (fst (handleSubmit_B env st)) = 0)
     \<and> (mobile_format (strip_separators (trim (mobile st))) \<longrightarrow>
        signUp_calls (fst (handleSubmit_B env st))
          = [\<lparr>arg_email = trim (email st), arg_password = password st,
               arg_phone = Some (strip_separators (trim (mobile st)))\<rparr>])
     \<and> (mobile st = str ''0400 111 222'' \<longrightarrow>
        rendered (fst (handleSubmit_B env st)) st = str ''Please enter a valid mobile number.''
        \<and> network_calls (fst (handleSubmit_B env st)) = 0)
     \<and> (mobile st = str ''+61400111222'' \<longrightarrow>
        signUp_calls (fst (handleSubmit_B env st))
          = [\<lparr>arg_email = trim (email st), arg_password = password st,
               arg_phone = Some (str ''+61400111222'')\<rparr>])"
proof (intro impI, elim conjE)
  assume ok: "passes_A st" and mob: "trim (mobile st) \<noteq> []"
  have sent: "signUp_calls (fst (submission env args tbn)) = [args]" for args tbn
    by (cases rule: submission_cases[of env args tbn]) (simp_all add: observations)
  have bad: "rendered (fst (handleSubmit_B env st)) st = str ''Please enter a valid mobile number.''
        \<and> messages (fst (handleSubmit_B env st)) = [str ''Please enter a valid mobile number.'']
        \<and> network_calls (fst (handleSubmit_B env st)) = 0"
    if "\<not> mobile_format (strip_separators (trim (mobile st)))"
    using handleSubmit_B_fails(4)[OF ok mob that, of env] by (simp add: observations)
  have good: "signUp_calls (fst (handleSubmit_B env st))
          = [\<lparr>arg_email = trim (email st), arg_password = password st,
               arg_phone = Some (strip_separators (trim (mobile st)))\<rparr>]"
    if "mobile_format (strip_separators (trim (mobile st)))"
  proof -
    from ok mob that have "passes_B st" by (simp add: passes_B_def)
    then show ?thesis by (simp add: handleSubmit_B_passes sent)
  qed
  show "(\<not> mobile_format (strip_separators (trim (mobile st))) \<longrightarrow>
        rendered (fst (handleSubmit_B env st)) st = str ''Please enter a valid mobile number.''
        \<and> messages (fst (handleSubmit_B env st)) = [str ''Please enter a valid mobile number.'']
        \<and> network_calls (fst (handleSubmit_B env st)) = 0)
     \<and> (mobile_format (strip_separators (trim (mobile st))) \<longrightarrow>
        signUp_calls (fst (handleSubmit_B env st))
          = [\<lparr>arg_email = trim (email st), arg_password = password st,
               arg_phone = Some (strip_separators (trim (mobile st)))\<rparr>])
     \<and> (mobile st = str ''0400 111 222'' \<longrightarrow>
        rendered (fst (handleSubmit_B env st)) st = str ''Please enter a valid mobile number.''
        \<and> network_calls (fst (handleSubmit_B env st)) = 0)
     \<and> (mobile st = str ''+61400111222'' \<longrightarrow>
        signUp_calls (fst (handleSubmit_B env st))
          = [\<lparr>arg_email = trim (email st), arg_password = password st,
               arg_phone = Some (str ''+61400111222'')\<rparr>])"
    using bad good by (auto simp: mobile_samples)
qed

theorem mobile_rule_witness:
  "passes_A (filled_B (str ''0400 111 222''))
   \<and> trim (mobile (filled_B (str ''0400 111 222''))) \<noteq> []
   \<and> \<not> mobile_format (strip_separators (trim (mobile (filled_B (str ''0400 111 222'')))))
   \<and> mobile (filled_B (str ''0400 111 222'')) = str ''0400 111 222''
   \<and> rendered (fst (handleSubmit_B offline (filled_B (str ''0400 111 222''))))
        (filled_B (str ''0400 111 222'')) = str ''Please enter a valid mobile number.''
   \<and> network_calls (fst (handleSubmit_B offline (filled_B (str ''0400 111 222'')))) = 0
   \<and> passes_A (filled_B (str ''+61400111222''))
   \<and> trim (mobile (filled_B (str ''+61400111222''))) \<noteq> []
   \<and> mobile_format (strip_separators (trim (mobile (filled_B (str ''+61400111222'')))))
   \<and> mobile (filled_B (str ''+61400111222'')) = str ''+61400111222''
   \<and> signUp_calls (fst (handleSubmit_B offline (filled_B (str ''+61400111222''))))
        = [ada_args (Some (str ''+61400111222''))]"
proof -
  have h: "passes_A (filled_B (str ''0400 111 222''))"
    "trim (mobile (filled_B (str ''0400 111 222''))) \<noteq> []"
    "\<not> mobile_format (strip_separators (trim (mobile (filled_B (str ''0400 111 222'')))))"
    "mobile (filled_B (str ''0400 111 222'')) = str ''0400 111 222''"
    "passes_A (filled_B (str ''+61400111222''))"
    "trim (mobile (filled_B (str ''+61400111222''))) \<noteq> []"
    "mobile_format (strip_separators (trim (mobile (filled_B (str ''+61400111222'')))))"
    "mobile (filled_B (str ''+61400111222'')) = str ''+61400111222''"
    by (simp_all add: filled_B_passes_A filled_B_fields mobile_samples)
  show ?thesis
    using h mobile_rule[of "filled_B (str ''0400 111 222'')" offline]
      mobile_rule[of "filled_B (str ''+61400111222'')" offline]
    by (simp add: filled_B_fields mobile_samples ada_args_def)
qed

subsection \<open>C3: the message after a provider error\<close>

lemma provider_error_core:
  "a \<in> set (signUp_calls (fst (submission env args tbn))) \<Longrightarrow> auth_signUp env a = Return r \<Longrightarrow>
   auth_error r = Some e \<Longrightarrow>
   rendered (fst (submission env args tbn)) st
     = (case message e of
          None \<Rightarrow> str ''Unable to create your account. Please try again.''
        | Some m \<Rightarrow> if m = [] then str ''Unable to create your account. Please try again.'' else m)
   \<and> upsert_calls (fst (submission env args tbn)) = []"
  by (cases rule: submission_cases[of env args tbn])
     (auto simp add: observations or_else_def split: option.splits)

text \<open>
  C3. For every submission in which the identity provider reports an error, the rendered
  message is the provider's \<open>error.message\<close> when there is one (a non-empty string), and
  otherwise exactly \<open>Unable to create your account. Please try again.\<close>; in both cases
  the upsert is not attempted.
\<close>

theorem provider_error_message:
  "(a \<in> set (signUp_calls (fst (handleSubmit_A env st))) \<and> auth_signUp env a = Return r
      \<and> auth_error r = Some e
    \<longrightarrow> rendered (fst (handleSubmit_A env st)) st
          = (case message e of
               None \<Rightarrow> str ''Unable to create your account. Please try again.''
             | Some m \<Rightarrow> if m = [] then str ''Unable to create your account. Please try again.'' else m)
        \<and> upsert_calls (fst (handleSubmit_A env st)) = [])
   \<and> (a' \<in> set (signUp_calls (fst (handleSubmit_B env st'))) \<and> auth_signUp env a' = Return r'
      \<and> auth_error r' = Some e'
    \<longrightarrow> rendered (fst (handleSubmit_B env st')) st'
          = (case message e' of
               None \<Rightarrow> str ''Unable to create your account. Please try again.''
             | Some m \<Rightarrow> if m = [] then str ''Unable to create your account. Please try again.'' else m)
        \<and> upsert_calls (fst (handleSubmit_B env st')) = [])"
proof (intro conjI impI; elim conjE)
  assume "a \<in> set (signUp_calls (fst (handleSubmit_A env st)))" "auth_signUp env a = Return r" "auth_error r = Some e"
  then show "rendered (fst (handleSubmit_A env st)) st
          = (case message e of
               None \<Rightarrow> str ''Unable to create your account. Please try again.''
             | Some m \<Rightarrow> if m = [] then str ''Unable to create your account. Please try again.'' else m)"
    and "upsert_calls (fst (handleSubmit_A env st)) = []"
    using provider_error_core[of a env _ _ r e st]
    by (cases rule: handleSubmit_A_cases[of st env]; simp add: observations)+
next
  assume "a' \<in> set (signUp_calls (fst (handleSubmit_B env st')))" "auth_signUp env a' = Return r'" "auth_error r' = Some e'"
  then show "rendered (fst (handleSubmit_B env st')) st'
          = (case message e' of
               None \<Rightarrow> str ''Unable to create your account. Please try again.''
             | Some m \<Rightarrow> if m = [] then str ''Unable to create your account. Please try again.'' else m)"
    and "upsert_calls (fst (handleSubmit_B env st')) = []"
    using provider_error_core[of a' env _ _ r' e' st']
    by (cases rule: handleSubmit_B_cases[of st' env]; simp add: observations)+
qed

theorem provider_error_message_witness:
  "ada_args None \<in> set (signUp_calls (fst (handleSubmit_A
       (answering (Return (refused (Some (str ''User already registered'')))) (Return stored)) filled)))
   \<and> auth_signUp (answering (Return (refused (Some (str ''User already registered'')))) (Return stored))
        (ada_args None) = Return (refused (Some (str ''User already registered'')))
   \<and> auth_error (refused (Some (str ''User already registered'')))
        = Some \<lparr>message = Some (str ''User already registered'')\<rparr>
   \<and> rendered (fst (handleSubmit_A
        (answering (Return (refused (Some (str ''User already registered'')))) (Return stored)) filled)) filled
        = str ''User already registered''
   \<and> ada_args (Some (str ''+61400111222'')) \<in> set (signUp_calls (fst (handleSubmit_B
       (answering (Return (refused None)) (Return stored)) (filled_B (str ''+61400111222'')))))
   \<and> auth_signUp (answering (Return (refused None)) (Return stored))
        (ada_args (Some (str ''+61400111222''))) = Return (refused None)
   \<and> auth_error (refused None) = Some \<lparr>message = None\<rparr>
   \<and> rendered (fst (handleSubmit_B (answering (Return (refused None)) (Return stored))
        (filled_B (str ''+61400111222'')))) (filled_B (str ''+61400111222''))
        = str ''Unable to create your account. Please try again.''"
proof -
  have h: "ada_args None \<in> set (signUp_calls (fst (handleSubmit_A
       (answering (Return (refused (Some (str ''User already registered'')))) (Return stored)) filled)))"
    "auth_signUp (answering (Return (refused (Some (str ''User already registered'')))) (Return stored))
        (ada_args None) = Return (refused (Some (str ''User already registered'')))"
    "auth_error (refused (Some (str ''User already registered'')))
        = Some \<lparr>message = Some (str ''User already registered'')\<rparr>"
    "ada_args (Some (str ''+61400111222'')) \<in> set (signUp_calls (fst (handleSubmit_B
       (answering (Return (refused None)) (Return stored)) (filled_B (str ''+61400111222'')))))"
    "auth_signUp (answering (Return (refused None)) (Return stored))
        (ada_args (Some (str ''+61400111222''))) = Return (refused None)"
    "auth_error (refused None) = Some \<lparr>message = None\<rparr>"
    by (simp_all add: calls_filled answering_simps sample_simps)
  show ?thesis
    using h
      provider_error_message[where env = "answering (Return (refused (Some (str ''User already registered'')))) (Return stored)"
        and st = filled and a = "ada_args None"
        and r = "refused (Some (str ''User already registered''))"
        and e = "\<lparr>message = Some (str ''User already registered'')\<rparr>"]
      provider_error_message[where env = "answering (Return (refused None)) (Return stored)"
        and st' = "filled_B (str ''+61400111222'')" and a' = "ada_args (Some (str ''+61400111222''))"
        and r' = "refused None" and e' = "\<lparr>message = None\<rparr>"]
    by simp
qed

subsection \<open>C4: where the page navigates\<close>

lemma navigation_core:
  "a \<in> set (signUp_calls (fst (submission env args tbn))) \<Longrightarrow> auth_signUp env a = Return r \<Longrightarrow>
   usable_identity (Return r) \<Longrightarrow>
   p \<in> set (upsert_calls (fst (submission env args tbn))) \<Longrightarrow>
   from_upsert env (str ''clients'') p = Return u \<Longrightarrow> upsert_error u = None \<Longrightarrow>
   navigations (fst (submission env args tbn))
     = [if session (auth_data r) \<noteq> None then str ''/account/setup'' else str ''/signup/check-email'']"
  by (cases rule: submission_cases[of env args tbn]) (auto simp add: observations)

lemma navigation_range:
  "set (navigations (fst (submission env args tbn))) \<subseteq> {str ''/account/setup'', str ''/signup/check-email''}"
  by (cases rule: submission_cases[of env args tbn]) (auto simp add: observations)

text \<open>
  C4. For every submission in which validation passes (the identity-creation call is
  made), identity creation succeeds with a usable id and the client-record upsert
  succeeds: the page navigates to \<open>/account/setup\<close> if the identity-creation response
  included a session, and to \<open>/signup/check-email\<close> otherwise. No execution navigates
  anywhere else.
\<close>

theorem navigation_target:
  "(a \<in> set (signUp_calls (fst (handleSubmit_A env st))) \<and> auth_signUp env a = Return r
      \<and> usable_identity (Return r)
      \<and> p \<in> set (upsert_calls (fst (handleSubmit_A env st)))
      \<and> from_upsert env (str ''clients'') p = Return u \<and> upsert_error u = None
    \<longrightarrow> navigations (fst (handleSubmit_A env st))
          = [if session (auth_data r) \<noteq> None then str ''/account/setup''
             else str ''/signup/check-email''])
   \<and> (a' \<in> set (signUp_calls (fst (handleSubmit_B env st'))) \<and> auth_signUp env a' = Return r'
      \<and> usable_identity (Return r')
      \<and> p' \<in> set (upsert_calls (fst (handleSubmit_B env st')))
      \<and> from_upsert env (str ''clients'') p' = Return u' \<and> upsert_error u' = None
    \<longrightarrow> navigations (fst (handleSubmit_B env st'))
          = [if session (auth_data r') \<noteq> None then str ''/account/setup''
             else str ''/signup/check-email''])
   \<and> set (navigations (fst (handleSubmit_A env st)))
        \<subseteq> {str ''/account/setup'', str ''/signup/check-email''}
   \<and> set (navigations (fst (handleSubmit_B env st')))
        \<subseteq> {str ''/account/setup'', str ''/signup/check-email''}"
proof (intro conjI impI; (elim conjE)?)
  assume "a \<in> set (signUp_calls (fst (handleSubmit_A env st)))" "auth_signUp env a = Return r"
    "usable_identity (Return r)" "p \<in> set (upsert_calls (fst (handleSubmit_A env st)))"
    "from_upsert env (str ''clients'') p = Return u" "upsert_error u = None"
  then show "navigations (fst (handleSubmit_A env st))
          = [if session (auth_data r) \<noteq> None then str ''/account/setup''
             else str ''/signup/check-email'']"
    using navigation_core[of a env _ _ r p u]
    by (cases rule: handleSubmit_A_cases[of st env]; simp add: observations)
next
  assume "a' \<in> set (signUp_calls (fst (handleSubmit_B env st')))" "auth_signUp env a' = Return r'"
    "usable_identity (Return r')" "p' \<in> set (upsert_calls (fst (handleSubmit_B env st')))"
    "from_upsert env (str ''clients'') p' = Return u'" "upsert_error u' = None"
  then show "navigations (fst (handleSubmit_B env st'))
          = [if session (auth_data r') \<noteq> None then str ''/account/setup''
             else str ''/signup/check-email'']"
    using navigation_core[of a' env _ _ r' p' u']
    by (cases rule: handleSubmit_B_cases[of st' env]; simp add: observations)
next
  show "set (navigations (fst (handleSubmit_A env st)))
        \<subseteq> {str ''/account/setup'', str ''/signup/check-email''}"
    using navigation_range[of env]
    by (cases rule: handleSubmit_A_cases[of st env]; simp add: observations)
next
  show "set (navigations (fst (handleSubmit_B env st')))
        \<subseteq> {str ''/account/setup'', str ''/signup/check-email''}"
    using navigation_range[of env]
    by (cases rule: handleSubmit_B_cases[of st' env]; simp add: observations)
qed

theorem navigation_target_witness:
  "ada_args None \<in> set (signUp_calls (fst (handleSubmit_A (answering (Return signed_in) (Return stored)) filled)))
   \<and> auth_signUp (answering (Return signed_in) (Return stored)) (ada_args None) = Return signed_in
   \<and> usable_identity (Return signed_in)
   \<and> ada_row (Some (str ''Ada Floors''))
       \<in> set (upsert_calls (fst (handleSubmit_A (answering (Return signed_in) (Return stored)) filled)))
   \<and> from_upsert (answering (Return signed_in) (Return stored)) (str ''clients'')
        (ada_row (Some (str ''Ada Floors''))) = Return stored
   \<and> upsert_error stored = None
   \<and> navigations (fst (handleSubmit_A (answering (Return signed_in) (Return stored)) filled))
        = [str ''/account/setup'']
   \<and> ada_args (Some (str ''+61400111222''))
       \<in> set (signUp_calls (fst (handleSubmit_B (answering (Return unconfirmed) (Return stored))
                                  (filled_B (str ''+61400111222'')))))
   \<and> auth_signUp (answering (Return unconfirmed) (Return stored)) (ada_args (Some (str ''+61400111222'')))
        = Return unconfirmed
   \<and> usable_identity (Return unconfirmed)
   \<and> ada_row None
       \<in> set (upsert_calls (fst (handleSubmit_B (answering (Return unconfirmed) (Return stored))
                                  (filled_B (str ''+61400111222'')))))
   \<and> from_upsert (answering (Return unconfirmed) (Return stored)) (str ''clients'') (ada_row None)
        = Return stored
   \<and> navigations (fst (handleSubmit_B (answering (Return unconfirmed) (Return stored))
                         (filled_B (str ''+61400111222''))))
        = [str ''/signup/check-email'']"
proof -
  have h: "ada_args None \<in> set (signUp_calls (fst (handleSubmit_A (answering (Return signed_in) (Return stored)) filled)))"
    "auth_signUp (answering (Return signed_in) (Return stored)) (ada_args None) = Return signed_in"
    "usable_identity (Return signed_in)"
    "ada_row (Some (str ''Ada Floors''))
       \<in> set (upsert_calls (fst (handleSubmit_A (answering (Return signed_in) (Return stored)) filled)))"
    "from_upsert (answering (Return signed_in) (Return stored)) (str ''clients'')
        (ada_row (Some (str ''Ada Floors''))) = Return stored"
    "upsert_error stored = None"
    "ada_args (Some (str ''+61400111222''))
       \<in> set (signUp_calls (fst (handleSubmit_B (answering (Return unconfirmed) (Return stored))
                                  (filled_B (str ''+61400111222'')))))"
    "auth_signUp (answering (Return unconfirmed) (Return stored)) (ada_args (Some (str ''+61400111222'')))
        = Return unconfirmed"
    "usable_identity (Return unconfirmed)"
    "ada_row None
       \<in> set (upsert_calls (fst (handleSubmit_B (answering (Return unconfirmed) (Return stored))
                                  (filled_B (str ''+61400111222'')))))"
    "from_upsert (answering (Return unconfirmed) (Return stored)) (str ''clients'') (ada_row None)
        = Return stored"
    by (simp_all add: calls_filled upserts_filled answering_simps sample_simps)
  show ?thesis
    using h sample_simps(3,6)
      navigation_target[where env = "answering (Return signed_in) (Return stored)" and st = filled
        and a = "ada_args None" and r = signed_in
        and p = "ada_row (Some (str ''Ada Floors''))" and u = stored]
      navigation_target[where env = "answering (Return unconfirmed) (Return stored)"
        and st' = "filled_B (str ''+61400111222'')"
        and a' = "ada_args (Some (str ''+61400111222''))" and r' = unconfirmed
        and p' = "ada_row None" and u' = stored]
    by simp
qed

subsection \<open>C5: exceptions stay inside the handler\<close>





subsection \<open>C6: the submission-in-progress flag\<close>

text \<open>
  As stated, for every path including the local-validation-failure paths, C6 fails: a form
  that fails local validation returns before \<open>setIsSubmitting(true)\<close> and before the
  \<open>try\<close> statement, so the flag is never true during the attempt and the finalization step
  does not run.
\<close>

theorem submitting_flag_counterexample:
  "\<not> passes_A blank_email
   \<and> fst (handleSubmit_A offline blank_email)
       = [PreventDefault, SetError [], SetError (str ''Email is required.'')]
   \<and> isSubmitting blank_email = False
   \<and> flags (fst (handleSubmit_A offline blank_email)) blank_email = [False, False, False]
   \<and> SetIsSubmitting False \<notin> set (fst (handleSubmit_A offline blank_email))"
  by (simp add: handleSubmit_A_fails(1)[OF blank_fields(1)] passes_A_def blank_fields)

lemma flag_core:
  "take 3 (fst (submission env args tbn)) = [PreventDefault, SetError [], SetIsSubmitting True]
   \<and> signUp_calls (fst (submission env args tbn)) \<noteq> []
   \<and> flags_at_calls (fst (submission env args tbn)) st
       = replicate (network_calls (fst (submission env args tbn))
                    + length (navigations (fst (submission env args tbn)))) True
   \<and> flags (fst (submission env args tbn)) st
       = isSubmitting st # isSubmitting st
           # replicate (length (fst (submission env args tbn)) - 3) True @ [False]
   \<and> last (fst (submission env args tbn)) = SetIsSubmitting False"
  by (cases rule: submission_cases[of env args tbn])
     (simp_all add: numeral_eq_Suc signUp_calls_def upsert_calls_def navigations_def network_calls_def)

text \<open>
  C6, amended. On every path that passes local validation, \<open>isSubmitting\<close> is set to true
  before the first remote call (the handler's first three effects are \<open>preventDefault\<close>,
  \<open>setError('')\<close>, \<open>setIsSubmitting(true)\<close>, and the identity-creation call follows), is
  true at every call to the identity provider, the data store and the router, stays true
  after every later effect of the attempt, and is set to false by the finalization step,
  the last effect of the handler, whether the attempt ends in success, a handled error or
  an exception. On the local-validation-failure paths the flag is not touched: it keeps the
  value it had when the handler started, and no call is made.
\<close>

theorem submitting_flag:
  "(passes_A st \<longrightarrow>
      take 3 (fst (handleSubmit_A env st)) = [PreventDefault, SetError [], SetIsSubmitting True]
      \<and> signUp_calls (fst (handleSubmit_A env st)) \<noteq> []
      \<and> flags_at_calls (fst (handleSubmit_A env st)) st
          = replicate (network_calls (fst (handleSubmit_A env st)) + length (navigations (fst (handleSubmit_A env st)))) True
      \<and> flags (fst (handleSubmit_A env st)) st
          = isSubmitting st # isSubmitting st
              # replicate (length (fst (handleSubmit_A env st)) - 3) True @ [False]
      \<and> last (fst (handleSubmit_A env st)) = SetIsSubmitting False)
   \<and> (\<not> passes_A st \<longrightarrow>
      flags (fst (handleSubmit_A env st)) st = replicate (length (fst (handleSubmit_A env st))) (isSubmitting st)
      \<and> flags_at_calls (fst (handleSubmit_A env st)) st = [])
   \<and> (passes_B st' \<longrightarrow>
      take 3 (fst (handleSubmit_B env st')) = [PreventDefault, SetError [], SetIsSubmitting True]
      \<and> signUp_calls (fst (handleSubmit_B env st')) \<noteq> []
      \<and> flags_at_calls (fst (handleSubmit_B env st')) st'
          = replicate (network_calls (fst (handleSubmit_B env st')) + length (navigations (fst (handleSubmit_B env st')))) True
      \<and> flags (fst (handleSubmit_B env st')) st'
          = isSubmitting st' # isSubmitting st'
              # replicate (length (fst (handleSubmit_B env st')) - 3) True @ [False]
      \<and> last (fst (handleSubmit_B env st')) = SetIsSubmitting False)
   \<and> (\<not> passes_B st' \<longrightarrow>
      flags (fst (handleSubmit_B env st')) st' = replicate (length (fst (handleSubmit_B env st'))) (isSubmitting st')
      \<and> flags_at_calls (fst (handleSubmit_B env st')) st' = [])"
proof -
  have A: "(passes_A st \<longrightarrow>
      take 3 (fst (handleSubmit_A env st)) = [PreventDefault, SetError [], SetIsSubmitting True]
      \<and> signUp_calls (fst (handleSubmit_A env st)) \<noteq> []
      \<and> flags_at_calls (fst (handleSubmit_A env st)) st
          = replicate (network_calls (fst (handleSubmit_A env st)) + length (navigations (fst (handleSubmit_A env st)))) True
      \<and> flags (fst (handleSubmit_A env st)) st
          = isSubmitting st # isSubmitting st
              # replicate (length (fst (handleSubmit_A env st)) - 3) True @ [False]
      \<and> last (fst (handleSubmit_A env st)) = SetIsSubmitting False)
   \<and> (\<not> passes_A st \<longrightarrow>
      flags (fst (handleSubmit_A env st)) st = replicate (length (fst (handleSubmit_A env st))) (isSubmitting st)
      \<and> flags_at_calls (fst (handleSubmit_A env st)) st = [])"
    using flag_core[of env _ _ st]
    by (cases rule: handleSubmit_A_cases[of st env]; simp add: passes_A_def numeral_eq_Suc)
  have B: "(passes_B st' \<longrightarrow>
      take 3 (fst (handleSubmit_B env st')) = [PreventDefault, SetError [], SetIsSubmitting True]
      \<and> signUp_calls (fst (handleSubmit_B env st')) \<noteq> []
      \<and> flags_at_calls (fst (handleSubmit_B env st')) st'
          = replicate (network_calls (fst (handleSubmit_B env st')) + length (navigations (fst (handleSubmit_B env st')))) True
      \<and> flags (fst (handleSubmit_B env st')) st'
          = isSubmitting st' # isSubmitting st'
              # replicate (length (fst (handleSubmit_B env st')) - 3) True @ [False]
      \<and> last (fst (handleSubmit_B env st')) = SetIsSubmitting False)
   \<and> (\<not> passes_B st' \<longrightarrow>
      flags (fst (handleSubmit_B env st')) st' = replicate (length (fst (handleSubmit_B env st'))) (isSubmitting st')
      \<and> flags_at_calls (fst (handleSubmit_B env st')) st' = [])"
    using flag_core[of env _ _ st']
    by (cases rule: handleSubmit_B_cases[of st' env];
        simp add: passes_B_def passes_A_def numeral_eq_Suc)
  from A B show ?thesis by simp
qed

theorem submitting_flag_witness:
  "passes_A filled
   \<and> flags (fst (handleSubmit_A offline filled)) filled = [False, False, True, True, True, False]
   \<and> flags_at_calls (fst (handleSubmit_A offline filled)) filled = [True]
   \<and> \<not> passes_A blank_email
   \<and> flags (fst (handleSubmit_A offline blank_email)) blank_email = [False, False, False]
   \<and> passes_B (filled_B (str ''+61400111222''))
   \<and> flags (fst (handleSubmit_B (answering (Return signed_in) (Return stored))
                    (filled_B (str ''+61400111222'')))) (filled_B (str ''+61400111222''))
       = [False, False, True, True, True, True, False]
   \<and> flags_at_calls (fst (handleSubmit_B (answering (Return signed_in) (Return stored))
                    (filled_B (str ''+61400111222'')))) (filled_B (str ''+61400111222''))
       = [True, True, True]
   \<and> \<not> passes_B blank_email_B
   \<and> flags (fst (handleSubmit_B offline blank_email_B)) blank_email_B = [False, False, False]"
proof -
  have h: "passes_A filled" "passes_B (filled_B (str ''+61400111222''))"
    by (simp_all add: filled_passes filled_B_passes)
  have h': "\<not> passes_A blank_email" "\<not> passes_B blank_email_B"
    by (simp_all add: passes_A_def passes_B_def blank_fields)
  have n: "length (fst (handleSubmit_A offline filled)) = 6"
    "network_calls (fst (handleSubmit_A offline filled)) = 1"
    "navigations (fst (handleSubmit_A offline filled)) = []"
    "length (fst (handleSubmit_A offline blank_email)) = 3"
    "length (fst (handleSubmit_B (answering (Return signed_in) (Return stored))
                    (filled_B (str ''+61400111222'')))) = 7"
    "network_calls (fst (handleSubmit_B (answering (Return signed_in) (Return stored))
                    (filled_B (str ''+61400111222'')))) = 2"
    "navigations (fst (handleSubmit_B (answering (Return signed_in) (Return stored))
                    (filled_B (str ''+61400111222'')))) = [str ''/account/setup'']"
    "length (fst (handleSubmit_B offline blank_email_B)) = 3"
    by (simp_all add: no_network welcome_B handleSubmit_A_fails(1)[OF blank_fields(1)]
          handleSubmit_B_fails(1)[OF blank_fields(3)] observations)
  show ?thesis
    using h h'
      submitting_flag[where st = filled and env = offline]
      submitting_flag[where st = blank_email and env = offline]
      submitting_flag[where st' = "filled_B (str ''+61400111222'')"
        and env = "answering (Return signed_in) (Return stored)"]
      submitting_flag[where st' = blank_email_B and env = offline]
    by (simp add: n filled_fields filled_B_fields blank_fields numeral_eq_Suc)
qed

subsection \<open>C7: the order of the local rules\<close>

text \<open>
  C7. Local validation is evaluated in a fixed order (email emptiness, password length,
  then in variant B mobile emptiness and mobile format) and stops at the first failure,
  so that exactly one error message is shown and no network call occurs: an email that is
  empty after trimming gives \<open>Email is required.\<close>, whatever the other fields hold; a
  non-empty trimmed email with a password shorter than 8 gives
  \<open>Password must be at least 8 characters.\<close>; in variant B the mobile rules come after
  these two.
\<close>

theorem validation_order:
  "(trim (email st) = [] \<longrightarrow>
      messages (fst (handleSubmit_A env st)) = [str ''Email is required.'']
      \<and> rendered (fst (handleSubmit_A env st)) st = str ''Email is required.''
      \<and> network_calls (fst (handleSubmit_A env st)) = 0)
   \<and> (trim (email st) \<noteq> [] \<and> length (password st) < 8 \<longrightarrow>
      messages (fst (handleSubmit_A env st)) = [str ''Password must be at least 8 characters.'']
      \<and> rendered (fst (handleSubmit_A env st)) st = str ''Password must be at least 8 characters.''
      \<and> network_calls (fst (handleSubmit_A env st)) = 0)
   \<and> (trim (email st') = [] \<longrightarrow>
      messages (fst (handleSubmit_B env st')) = [str ''Email is required.'']
      \<and> rendered (fst (handleSubmit_B env st')) st' = str ''Email is required.''
      \<and> network_calls (fst (handleSubmit_B env st')) = 0)
   \<and> (trim (email st') \<noteq> [] \<and> length (password st') < 8 \<longrightarrow>
      messages (fst (handleSubmit_B env st')) = [str ''Password must be at least 8 characters.'']
      \<and> rendered (fst (handleSubmit_B env st')) st' = str ''Password must be at least 8 characters.''
      \<and> network_calls (fst (handleSubmit_B env st')) = 0)
   \<and> (passes_A st' \<and> trim (mobile st') = [] \<longrightarrow>
      messages (fst (handleSubmit_B env st')) = [str ''Mobile is required.'']
      \<and> rendered (fst (handleSubmit_B env st')) st' = str ''Mobile is required.''
      \<and> network_calls (fst (handleSubmit_B env st')) = 0)
   \<and> (passes_A st' \<and> trim (mobile st') \<noteq> []
        \<and> \<not> mobile_format (strip_separators (trim (mobile st'))) \<longrightarrow>
      messages (fst (handleSubmit_B env st')) = [str ''Please enter a valid mobile number.'']
      \<and> rendered (fst (handleSubmit_B env st')) st' = str ''Please enter a valid mobile number.''
      \<and> network_calls (fst (handleSubmit_B env st')) = 0)"
  using handleSubmit_A_fails[of st env] handleSubmit_B_fails[of st' env]
  by (simp add: observations)

theorem validation_order_witness:
  "trim (email blank_email) = []
   \<and> rendered (fst (handleSubmit_A offline blank_email)) blank_email = str ''Email is required.''
   \<and> network_calls (fst (handleSubmit_A offline blank_email)) = 0
   \<and> trim (email short_password) \<noteq> [] \<and> length (password short_password) < 8
   \<and> rendered (fst (handleSubmit_A offline short_password)) short_password
       = str ''Password must be at least 8 characters.''
   \<and> trim (email blank_email_B) = []
   \<and> rendered (fst (handleSubmit_B offline blank_email_B)) blank_email_B = str ''Email is required.''
   \<and> trim (email short_password_B) \<noteq> [] \<and> length (password short_password_B) < 8
   \<and> rendered (fst (handleSubmit_B offline short_password_B)) short_password_B
       = str ''Password must be at least 8 characters.''
   \<and> passes_A (filled_B (str '' '')) \<and> trim (mobile (filled_B (str '' ''))) = []
   \<and> rendered (fst (handleSubmit_B offline (filled_B (str '' '')))) (filled_B (str '' ''))
       = str ''Mobile is required.''
   \<and> passes_A (filled_B (str ''0400 111 222''))
   \<and> trim (mobile (filled_B (str ''0400 111 222''))) \<noteq> []
   \<and> \<not> mobile_format (strip_separators (trim (mobile (filled_B (str ''0400 111 222'')))))
   \<and> rendered (fst (handleSubmit_B offline (filled_B (str ''0400 111 222''))))
        (filled_B (str ''0400 111 222'')) = str ''Please enter a valid mobile number.''"
proof -
  have h: "trim (email blank_email) = []"
    "trim (email short_password) \<noteq> []" "length (password short_password) < 8"
    "trim (email blank_email_B) = []"
    "trim (email short_password_B) \<noteq> []" "length (password short_password_B) < 8"
    "passes_A (filled_B (str '' ''))" "trim (mobile (filled_B (str '' ''))) = []"
    "passes_A (filled_B (str ''0400 111 222''))"
    "trim (mobile (filled_B (str ''0400 111 222''))) \<noteq> []"
    "\<not> mobile_format (strip_separators (trim (mobile (filled_B (str ''0400 111 222'')))))"
    by (simp_all add: blank_fields filled_B_passes_A filled_B_fields mobile_samples)
  show ?thesis
    using h
      validation_order[where st = blank_email and env = offline and st' = blank_email_B]
      validation_order[where st = short_password and env = offline and st' = short_password_B]
      validation_order[where st' = "filled_B (str '' '')" and env = offline]
      validation_order[where st' = "filled_B (str ''0400 111 222'')" and env = offline]
    by simp
qed

subsection \<open>C8: the outbound record\<close>

lemma payload_core:
  "p \<in> set (upsert_calls (fst (submission env args tbn))) \<Longrightarrow>
   business_name p = (if tbn = [] then None else Some tbn)
   \<and> business_name p \<noteq> Some []
   \<and> (\<exists>a r u. a \<in> set (signUp_calls (fst (submission env args tbn))) \<and> auth_signUp env a = Return r
         \<and> user (auth_data r) = Some u \<and> payload_id p = user_id u)"
  by (cases rule: submission_cases[of env args tbn]) (auto simp add: observations)

text \<open>
  C8. For every submission that reaches the upsert step, the outbound record holds the id
  of the user that the identity-creation call returned, and \<open>business_name\<close> exactly when
  the business-name field is non-empty after trimming, then with the trimmed value: the
  key is absent, never an empty string, when the trimmed field is empty.
\<close>

theorem upsert_payload:
  "(p \<in> set (upsert_calls (fst (handleSubmit_A env st))) \<longrightarrow>
      business_name p = (if trim (businessName st) = [] then None else Some (trim (businessName st)))
      \<and> business_name p \<noteq> Some []
      \<and> (\<exists>a r u. a \<in> set (signUp_calls (fst (handleSubmit_A env st))) \<and> auth_signUp env a = Return r
            \<and> user (auth_data r) = Some u \<and> payload_id p = user_id u))
   \<and> (p' \<in> set (upsert_calls (fst (handleSubmit_B env st'))) \<longrightarrow>
      business_name p' = (if trim (businessName st') = [] then None else Some (trim (businessName st')))
      \<and> business_name p' \<noteq> Some []
      \<and> (\<exists>a r u. a \<in> set (signUp_calls (fst (handleSubmit_B env st'))) \<and> auth_signUp env a = Return r
            \<and> user (auth_data r) = Some u \<and> payload_id p' = user_id u))"
proof -
  have A: "p \<in> set (upsert_calls (fst (handleSubmit_A env st))) \<longrightarrow>
      business_name p = (if trim (businessName st) = [] then None else Some (trim (businessName st)))
      \<and> business_name p \<noteq> Some []
      \<and> (\<exists>a r u. a \<in> set (signUp_calls (fst (handleSubmit_A env st))) \<and> auth_signUp env a = Return r
            \<and> user (auth_data r) = Some u \<and> payload_id p = user_id u)"
    using payload_core[of p env]
    by (cases rule: handleSubmit_A_cases[of st env]; simp add: observations)
  have B: "p' \<in> set (upsert_calls (fst (handleSubmit_B env st'))) \<longrightarrow>
      business_name p' = (if trim (businessName st') = [] then None else Some (trim (businessName st')))
      \<and> business_name p' \<noteq> Some []
      \<and> (\<exists>a r u. a \<in> set (signUp_calls (fst (handleSubmit_B env st'))) \<and> auth_signUp env a = Return r
            \<and> user (auth_data r) = Some u \<and> payload_id p' = user_id u)"
    using payload_core[of p' env]
    by (cases rule: handleSubmit_B_cases[of st' env]; simp add: observations)
  from A B show ?thesis by (rule conjI)
qed

theorem upsert_payload_witness:
  "ada_row (Some (str ''Ada Floors''))
     \<in> set (upsert_calls (fst (handleSubmit_A (answering (Return signed_in) (Return stored)) filled)))
   \<and> business_name (ada_row (Some (str ''Ada Floors''))) = Some (trim (businessName filled))
   \<and> ada_row None
     \<in> set (upsert_calls (fst (handleSubmit_B (answering (Return signed_in) (Return stored))
                                (filled_B (str ''+61400111222'')))))
   \<and> business_name (ada_row None) = None
   \<and> trim (businessName (filled_B (str ''+61400111222''))) = []"
proof -
  have h: "ada_row (Some (str ''Ada Floors''))
     \<in> set (upsert_calls (fst (handleSubmit_A (answering (Return signed_in) (Return stored)) filled)))"
    "ada_row None
     \<in> set (upsert_calls (fst (handleSubmit_B (answering (Return signed_in) (Return stored))
                                (filled_B (str ''+61400111222'')))))"
    by (simp_all add: upserts_filled)
  show ?thesis
    using h
      upsert_payload[where env = "answering (Return signed_in) (Return stored)" and st = filled
        and p = "ada_row (Some (str ''Ada Floors''))"
        and st' = "filled_B (str ''+61400111222'')" and p' = "ada_row None"]
    by (simp add: filled_fields filled_B_fields)
qed

subsection \<open>C9: navigating and showing an error\<close>

text \<open>
  As stated, for every execution, C9 fails: \<open>router.push\<close> is called inside the \<open>try\<close>
  block, so when it throws the handler has made its navigation call and the \<open>catch\<close> block
  then sets the generic message.
\<close>

theorem single_navigation_counterexample:
  "fst (handleSubmit_A stuck_router filled)
     = [PreventDefault, SetError [], SetIsSubmitting True, SignUp (ada_args None),
        Upsert (str ''clients'') (ada_row (Some (str ''Ada Floors''))),
        Push (str ''/account/setup''),
        SetError (str ''Something went wrong. Please try again.''), SetIsSubmitting False]
   \<and> navigations (fst (handleSubmit_A stuck_router filled)) = [str ''/account/setup'']
   \<and> messages (fst (handleSubmit_A stuck_router filled))
       = [str ''Something went wrong. Please try again.'']
   \<and> rendered (fst (handleSubmit_A stuck_router filled)) filled
       = str ''Something went wrong. Please try again.''
   \<and> rendered (fst (handleSubmit_A stuck_router filled)) filled \<noteq> []"
  by (simp add: stuck_runs observations)

lemma single_navigation_core:
  "length (navigations (fst (submission env args tbn))) \<le> 1
   \<and> (navigations (fst (submission env args tbn)) \<noteq> [] \<longrightarrow>
        messages (before_navigation (fst (submission env args tbn))) = [])
   \<and> (p \<in> set (navigations (fst (submission env args tbn))) \<and> router_push env p = Return () \<longrightarrow>
        messages (fst (submission env args tbn)) = []
        \<and> rendered (fst (submission env args tbn)) st = [])
   \<and> (p \<in> set (navigations (fst (submission env args tbn))) \<and> router_push env p = Throw \<longrightarrow>
        messages (fst (submission env args tbn)) = [str ''Something went wrong. Please try again.'']
        \<and> rendered (fst (submission env args tbn)) st = str ''Something went wrong. Please try again.'')"
  by (cases rule: submission_cases[of env args tbn])
     (auto simp add: observations before_navigation_def)

text \<open>
  C9, amended. In every execution of the submit handler, of either variant, at most one
  navigation call is made, and no error message is set before it: every error path that
  sets a message of its own returns before any navigation. When the navigation call
  returns, the attempt set no error message and the page renders none. Only when
  \<open>router.push\<close> itself throws does an attempt both navigate and display an error: the
  \<open>catch\<close> block then sets \<open>Something went wrong. Please try again.\<close>, and nothing else.
\<close>

theorem single_navigation:
  "length (navigations (fst (handleSubmit_A env st))) \<le> 1
   \<and> (navigations (fst (handleSubmit_A env st)) \<noteq> [] \<longrightarrow> messages (before_navigation (fst (handleSubmit_A env st))) = [])
   \<and> (p \<in> set (navigations (fst (handleSubmit_A env st))) \<and> router_push env p = Return () \<longrightarrow>
        messages (fst (handleSubmit_A env st)) = [] \<and> rendered (fst (handleSubmit_A env st)) st = [])
   \<and> (p \<in> set (navigations (fst (handleSubmit_A env st))) \<and> router_push env p = Throw \<longrightarrow>
        messages (fst (handleSubmit_A env st)) = [str ''Something went wrong. Please try again.'']
        \<and> rendered (fst (handleSubmit_A env st)) st = str ''Something went wrong. Please try again.'')
   \<and> length (navigations (fst (handleSubmit_B env st'))) \<le> 1
   \<and> (navigations (fst (handleSubmit_B env st')) \<noteq> [] \<longrightarrow> messages (before_navigation (fst (handleSubmit_B env st'))) = [])
   \<and> (p' \<in> set (navigations (fst (handleSubmit_B env st'))) \<and> router_push env p' = Return () \<longrightarrow>
        messages (fst (handleSubmit_B env st')) = [] \<and> rendered (fst (handleSubmit_B env st')) st' = [])
   \<and> (p' \<in> set (navigations (fst (handleSubmit_B env st'))) \<and> router_push env p' = Throw \<longrightarrow>
        messages (fst (handleSubmit_B env st')) = [str ''Something went wrong. Please try again.'']
        \<and> rendered (fst (handleSubmit_B env st')) st' = str ''Something went wrong. Please try again.'')"
proof -
  have A: "length (navigations (fst (handleSubmit_A env st))) \<le> 1
   \<and> (navigations (fst (handleSubmit_A env st)) \<noteq> [] \<longrightarrow> messages (before_navigation (fst (handleSubmit_A env st))) = [])
   \<and> (p \<in> set (navigations (fst (handleSubmit_A env st))) \<and> router_push env p = Return () \<longrightarrow>
        messages (fst (handleSubmit_A env st)) = [] \<and> rendered (fst (handleSubmit_A env st)) st = [])
   \<and> (p \<in> set (navigations (fst (handleSubmit_A env st))) \<and> router_push env p = Throw \<longrightarrow>
        messages (fst (handleSubmit_A env st)) = [str ''Something went wrong. Please try again.'']
        \<and> rendered (fst (handleSubmit_A env st)) st = str ''Something went wrong. Please try again.'')"
    using single_navigation_core[of env _ _ p st]
    by (cases rule: handleSubmit_A_cases[of st env]; simp add: observations before_navigation_def)
  have B: "length (navigations (fst (handleSubmit_B env st'))) \<le> 1
   \<and> (navigations (fst (handleSubmit_B env st')) \<noteq> [] \<longrightarrow> messages (before_navigation (fst (handleSubmit_B env st'))) = [])
   \<and> (p' \<in> set (navigations (fst (handleSubmit_B env st'))) \<and> router_push env p' = Return () \<longrightarrow>
        messages (fst (handleSubmit_B env st')) = [] \<and> rendered (fst (handleSubmit_B env st')) st' = [])
   \<and> (p' \<in> set (navigations (fst (handleSubmit_B env st'))) \<and> router_push env p' = Throw \<longrightarrow>
        messages (fst (handleSubmit_B env st')) = [str ''Something went wrong. Please try again.'']
        \<and> rendered (fst (handleSubmit_B env st')) st' = str ''Something went wrong. Please try again.'')"
    using single_navigation_core[of env _ _ p' st']
    by (cases rule: handleSubmit_B_cases[of st' env]; simp add: observations before_navigation_def)
  from A B show ?thesis by simp
qed

theorem single_navigation_witness:
  "navigations (fst (handleSubmit_A (answering (Return signed_in) (Return stored)) filled)) \<noteq> []
   \<and> str ''/account/setup''
       \<in> set (navigations (fst (handleSubmit_A (answering (Return signed_in) (Return stored)) filled)))
   \<and> router_push (answering (Return signed_in) (Return stored)) (str ''/account/setup'') = Return ()
   \<and> messages (fst (handleSubmit_A (answering (Return signed_in) (Return stored)) filled)) = []
   \<and> rendered (fst (handleSubmit_A (answering (Return signed_in) (Return stored)) filled)) filled = []
   \<and> str ''/account/setup'' \<in> set (navigations (fst (handleSubmit_A stuck_router filled)))
   \<and> router_push stuck_router (str ''/account/setup'') = Throw
   \<and> rendered (fst (handleSubmit_A stuck_router filled)) filled
       = str ''Something went wrong. Please try again.''
   \<and> messages (before_navigation (fst (handleSubmit_A stuck_router filled))) = []
   \<and> navigations (fst (handleSubmit_B (answering (Return unconfirmed) (Return stored))
                         (filled_B (str ''+61400111222'')))) \<noteq> []
   \<and> str ''/signup/check-email''
       \<in> set (navigations (fst (handleSubmit_B (answering (Return unconfirmed) (Return stored))
                                  (filled_B (str ''+61400111222'')))))
   \<and> router_push (answering (Return unconfirmed) (Return stored)) (str ''/signup/check-email'')
       = Return ()
   \<and> messages (fst (handleSubmit_B (answering (Return unconfirmed) (Return stored))
                      (filled_B (str ''+61400111222'')))) = []
   \<and> str ''/account/setup''
       \<in> set (navigations (fst (handleSubmit_B stuck_router (filled_B (str ''+61400111222'')))))
   \<and> messages (fst (handleSubmit_B stuck_router (filled_B (str ''+61400111222''))))
       = [str ''Something went wrong. Please try again.'']"
proof -
  have h: "navigations (fst (handleSubmit_A (answering (Return signed_in) (Return stored)) filled)) \<noteq> []"
    "str ''/account/setup''
       \<in> set (navigations (fst (handleSubmit_A (answering (Return signed_in) (Return stored)) filled)))"
    "router_push (answering (Return signed_in) (Return stored)) (str ''/account/setup'') = Return ()"
    "str ''/account/setup'' \<in> set (navigations (fst (handleSubmit_A stuck_router filled)))"
    "navigations (fst (handleSubmit_A stuck_router filled)) \<noteq> []"
    "router_push stuck_router (str ''/account/setup'') = Throw"
    "navigations (fst (handleSubmit_B (answering (Return unconfirmed) (Return stored))
                         (filled_B (str ''+61400111222'')))) \<noteq> []"
    "str ''/signup/check-email''
       \<in> set (navigations (fst (handleSubmit_B (answering (Return unconfirmed) (Return stored))
                                  (filled_B (str ''+61400111222'')))))"
    "router_push (answering (Return unconfirmed) (Return stored)) (str ''/signup/check-email'')
       = Return ()"
    "str ''/account/setup''
       \<in> set (navigations (fst (handleSubmit_B stuck_router (filled_B (str ''+61400111222'')))))"
    by (simp_all add: welcome_A later_B stuck_runs navigations_def answering_simps stuck_simps)
  show ?thesis
    using h
      single_navigation[where env = "answering (Return signed_in) (Return stored)" and st = filled
        and p = "str ''/account/setup''"]
      single_navigation[where env = stuck_router and st = filled and p = "str ''/account/setup''"
        and st' = "filled_B (str ''+61400111222'')" and p' = "str ''/account/setup''"]
      single_navigation[where env = "answering (Return unconfirmed) (Return stored)"
        and st' = "filled_B (str ''+61400111222'')" and p' = "str ''/signup/check-email''"]
    by simp
qed

subsection \<open>C10: an empty message is no message\<close>

lemma empty_message_core:
  "(a \<in> set (signUp_calls (fst (submission env args tbn))) \<and> auth_signUp env a = Return r
      \<and> auth_error r = Some e \<and> message e = Some []
    \<longrightarrow> rendered (fst (submission env args tbn)) st = str ''Unable to create your account. Please try again.'')
   \<and> (p \<in> set (upsert_calls (fst (submission env args tbn)))
      \<and> from_upsert env (str ''clients'') p = Return u \<and> upsert_error u = Some e \<and> message e = Some []
    \<longrightarrow> rendered (fst (submission env args tbn)) st
          = str ''Your account was created, but setup failed. Please try logging in.'')"
  by (cases rule: submission_cases[of env args tbn]) (auto simp add: observations or_else_def)

text \<open>
  C10. If the identity provider, or the upsert call, returns an error object whose
  \<open>message\<close> is the empty string, the rendered error is the fixed fallback text of that
  branch, which is not the empty string: a falsy message is treated as an absent one on
  both error branches.
\<close>

theorem empty_message_fallback:
  "(a \<in> set (signUp_calls (fst (handleSubmit_A env st))) \<and> auth_signUp env a = Return r
      \<and> auth_error r = Some e \<and> message e = Some []
    \<longrightarrow> rendered (fst (handleSubmit_A env st)) st = str ''Unable to create your account. Please try again.'')
   \<and> (p \<in> set (upsert_calls (fst (handleSubmit_A env st)))
      \<and> from_upsert env (str ''clients'') p = Return u \<and> upsert_error u = Some e \<and> message e = Some []
    \<longrightarrow> rendered (fst (handleSubmit_A env st)) st
          = str ''Your account was created, but setup failed. Please try logging in.'')
   \<and> (a' \<in> set (signUp_calls (fst (handleSubmit_B env st'))) \<and> auth_signUp env a' = Return r'
      \<and> auth_error r' = Some e' \<and> message e' = Some []
    \<longrightarrow> rendered (fst (handleSubmit_B env st')) st' = str ''Unable to create your account. Please try again.'')
   \<and> (p' \<in> set (upsert_calls (fst (handleSubmit_B env st')))
      \<and> from_upsert env (str ''clients'') p' = Return u' \<and> upsert_error u' = Some e' \<and> message e' = Some []
    \<longrightarrow> rendered (fst (handleSubmit_B env st')) st'
          = str ''Your account was created, but setup failed. Please try logging in.'')
   \<and> str ''Unable to create your account. Please try again.'' \<noteq> []
   \<and> str ''Your account was created, but setup failed. Please try logging in.'' \<noteq> []"
proof -
  have A: "(a \<in> set (signUp_calls (fst (handleSubmit_A env st))) \<and> auth_signUp env a = Return r
      \<and> auth_error r = Some e \<and> message e = Some []
    \<longrightarrow> rendered (fst (handleSubmit_A env st)) st = str ''Unable to create your account. Please try again.'')
   \<and> (p \<in> set (upsert_calls (fst (handleSubmit_A env st)))
      \<and> from_upsert env (str ''clients'') p = Return u \<and> upsert_error u = Some e \<and> message e = Some []
    \<longrightarrow> rendered (fst (handleSubmit_A env st)) st
          = str ''Your account was created, but setup failed. Please try logging in.'')"
    using empty_message_core[of a env _ _ r e st p u]
    by (cases rule: handleSubmit_A_cases[of st env]; simp add: observations)
  have B: "(a' \<in> set (signUp_calls (fst (handleSubmit_B env st'))) \<and> auth_signUp env a' = Return r'
      \<and> auth_error r' = Some e' \<and> message e' = Some []
    \<longrightarrow> rendered (fst (handleSubmit_B env st')) st' = str ''Unable to create your account. Please try again.'')
   \<and> (p' \<in> set (upsert_calls (fst (handleSubmit_B env st')))
      \<and> from_upsert env (str ''clients'') p' = Return u' \<and> upsert_error u' = Some e' \<and> message e' = Some []
    \<longrightarrow> rendered (fst (handleSubmit_B env st')) st'
          = str ''Your account was created, but setup failed. Please try logging in.'')"
    using empty_message_core[of a' env _ _ r' e' st' p' u']
    by (cases rule: handleSubmit_B_cases[of st' env]; simp add: observations)
  from A B show ?thesis by simp
qed

theorem empty_message_fallback_witness:
  "ada_args None \<in> set (signUp_calls (fst (handleSubmit_A
       (answering (Return (refused (Some []))) (Return stored)) filled)))
   \<and> auth_signUp (answering (Return (refused (Some []))) (Return stored)) (ada_args None)
       = Return (refused (Some []))
   \<and> auth_error (refused (Some [])) = Some \<lparr>message = Some []\<rparr>
   \<and> message \<lparr>message = Some []\<rparr> = Some []
   \<and> rendered (fst (handleSubmit_A (answering (Return (refused (Some []))) (Return stored)) filled)) filled
       = str ''Unable to create your account. Please try again.''
   \<and> ada_row None \<in> set (upsert_calls (fst (handleSubmit_B
       (answering (Return signed_in) (Return (not_stored (Some [])))) (filled_B (str ''+61400111222'')))))
   \<and> from_upsert (answering (Return signed_in) (Return (not_stored (Some [])))) (str ''clients'')
       (ada_row None) = Return (not_stored (Some []))
   \<and> upsert_error (not_stored (Some [])) = Some \<lparr>message = Some []\<rparr>
   \<and> rendered (fst (handleSubmit_B (answering (Return signed_in) (Return (not_stored (Some []))))
                      (filled_B (str ''+61400111222'')))) (filled_B (str ''+61400111222''))
       = str ''Your account was created, but setup failed. Please try logging in.''"
proof -
  have h: "ada_args None \<in> set (signUp_calls (fst (handleSubmit_A
       (answering (Return (refused (Some []))) (Return stored)) filled)))"
    "auth_signUp (answering (Return (refused (Some []))) (Return stored)) (ada_args None)
       = Return (refused (Some []))"
    "auth_error (refused (Some [])) = Some \<lparr>message = Some []\<rparr>"
    "message \<lparr>message = Some []\<rparr> = Some []"
    "ada_row None \<in> set (upsert_calls (fst (handleSubmit_B
       (answering (Return signed_in) (Return (not_stored (Some [])))) (filled_B (str ''+61400111222'')))))"
    "from_upsert (answering (Return signed_in) (Return (not_stored (Some [])))) (str ''clients'')
       (ada_row None) = Return (not_stored (Some []))"
    "upsert_error (not_stored (Some [])) = Some \<lparr>message = Some []\<rparr>"
    by (simp_all add: calls_filled upserts_filled answering_simps sample_simps)
  show ?thesis
    using h
      empty_message_fallback[where env = "answering (Return (refused (Some []))) (Return stored)"
        and st = filled and a = "ada_args None" and r = "refused (Some [])"
        and e = "\<lparr>message = Some []\<rparr>"]
      empty_message_fallback[where env = "answering (Return signed_in) (Return (not_stored (Some [])))"
        and st' = "filled_B (str ''+61400111222'')" and p' = "ada_row None"
        and u' = "not_stored (Some [])" and e' = "\<lparr>message = Some []\<rparr>"]
    by simp
qed

end
